theory Spec2Isabelle
  imports Complex_Main "HOL-Library.Sublist"
begin

section \<open>Text\<close>

text \<open>
  A Python \<open>str\<close> is a sequence of code points, so text is a list of code points
  here (\<open>int\<close>): the section titles, header names and keywords of the statement are
  Cyrillic. ASCII literals are written \<open>ascii ''...''\<close>, Cyrillic ones as the list
  of their code points with a transliteration beside them.

  The character tables of the interpreter are modelled for the alphabet of the
  statement: ASCII and Cyrillic letters for the case maps and for the word class,
  the ASCII digits, and the whole of \<open>str.isspace\<close> for white space. A code point
  outside these has no case, is no digit and is no word character.
\<close>

type_synonym ustr = "int list"

definition ascii :: "string \<Rightarrow> ustr" where
  "ascii s = map of_char s"

definition isspace :: "int \<Rightarrow> bool" where
  "isspace c \<longleftrightarrow>
     (9 \<le> c \<and> c \<le> 13) \<or> (28 \<le> c \<and> c \<le> 32) \<or> c = 133 \<or> c = 160 \<or> c = 5760 \<or>
     (8192 \<le> c \<and> c \<le> 8202) \<or> c = 8232 \<or> c = 8233 \<or> c = 8239 \<or> c = 8287 \<or>
     c = 12288"

definition isdigit :: "int \<Rightarrow> bool" where
  "isdigit c \<longleftrightarrow> 48 \<le> c \<and> c \<le> 57"

text \<open>\<open>str.lower\<close> and \<open>str.upper\<close>, code point by code point: A-Z, the Cyrillic
  capitals U+0410..U+042F and U+0400..U+040F and their small letters.\<close>

definition lower_cp :: "int \<Rightarrow> int" where
  "lower_cp c =
     (if 65 \<le> c \<and> c \<le> 90 then c + 32
      else if 1040 \<le> c \<and> c \<le> 1071 then c + 32
      else if 1024 \<le> c \<and> c \<le> 1039 then c + 80
      else c)"

definition upper_cp :: "int \<Rightarrow> int" where
  "upper_cp c =
     (if 97 \<le> c \<and> c \<le> 122 then c - 32
      else if 1072 \<le> c \<and> c \<le> 1103 then c - 32
      else if 1104 \<le> c \<and> c \<le> 1119 then c - 80
      else c)"

definition lower :: "ustr \<Rightarrow> ustr" where
  "lower s = map lower_cp s"

definition upper :: "ustr \<Rightarrow> ustr" where
  "upper s = map upper_cp s"

definition strip :: "ustr \<Rightarrow> ustr" where
  "strip s = rev (dropWhile isspace (rev (dropWhile isspace s)))"

text \<open>\<open>p in s\<close> on strings: \<open>p\<close> occurs in \<open>s\<close> as a contiguous block.\<close>

fun contains :: "ustr \<Rightarrow> ustr \<Rightarrow> bool" where
  "contains [] p = (p = [])"
| "contains (x # xs) p = (prefix p (x # xs) \<or> contains xs p)"

text \<open>\<open>s.replace(a, b)\<close> for a single code point \<open>a\<close>.\<close>

definition replace1 :: "int \<Rightarrow> ustr \<Rightarrow> ustr \<Rightarrow> ustr" where
  "replace1 a b s = concat (map (\<lambda>c. if c = a then b else [c]) s)"

section \<open>Numbers\<close>

text \<open>
  A Python \<open>float\<close> is modelled as an exact rational: rounding to 53 bits, overflow
  and the non-finite values are outside the model. Accordingly \<open>py_float\<close>, the
  conversion \<open>float(s)\<close> of a string, reads the decimal grammar of the language
  (white space around, a sign, digits with single underscores between them, a
  fraction, an exponent) to the rational it denotes, and answers \<open>None\<close> where
  \<open>float\<close> raises \<open>ValueError\<close>; the literals \<open>inf\<close>, \<open>infinity\<close> and \<open>nan\<close>, which
  denote no rational, are not numbers of the model and are answered \<open>None\<close> too.
\<close>

fun digitpart :: "ustr \<Rightarrow> ustr \<times> ustr" where
  "digitpart [] = ([], [])"
| "digitpart [c] = (if isdigit c then ([c], []) else ([], [c]))"
| "digitpart (c # u # cs) =
     (if \<not> isdigit c then ([], c # u # cs)
      else if u = 95 \<and> (case cs of d # _ \<Rightarrow> isdigit d | [] \<Rightarrow> False)
        then (case digitpart cs of (ds, r) \<Rightarrow> (c # ds, r))
      else (case digitpart (u # cs) of (ds, r) \<Rightarrow> (c # ds, r)))"

definition digits_value :: "ustr \<Rightarrow> int" where
  "digits_value ds = foldl (\<lambda>n d. 10 * n + (d - 48)) 0 ds"

definition take_sign :: "ustr \<Rightarrow> bool \<times> ustr" where
  "take_sign s =
     (case s of [] \<Rightarrow> (False, [])
      | c # cs \<Rightarrow> if c = 45 then (True, cs) else if c = 43 then (False, cs) else (False, c # cs))"

definition take_fraction :: "ustr \<Rightarrow> bool \<times> ustr \<times> ustr" where
  "take_fraction s =
     (case s of [] \<Rightarrow> (False, [], [])
      | c # cs \<Rightarrow> if c = 46 then (case digitpart cs of (ds, r) \<Rightarrow> (True, ds, r))
                 else (False, [], c # cs))"

text \<open>The exponent: \<open>None\<close> when an exponent mark has no digits after it.\<close>

definition take_exponent :: "ustr \<Rightarrow> (int \<times> ustr) option" where
  "take_exponent s =
     (case s of [] \<Rightarrow> Some (0, [])
      | c # cs \<Rightarrow>
          if c = 101 \<or> c = 69 then
            (case take_sign cs of (neg, r) \<Rightarrow>
               (case digitpart r of (ds, r') \<Rightarrow>
                  if ds = [] then None
                  else Some ((if neg then - digits_value ds else digits_value ds), r')))
          else Some (0, c # cs))"

definition scale10 :: "rat \<Rightarrow> int \<Rightarrow> rat" where
  "scale10 q e = (if 0 \<le> e then q * 10 ^ nat e else q / 10 ^ nat (- e))"

definition py_float :: "ustr \<Rightarrow> rat option" where
  "py_float s =
     (case take_sign (strip s) of (neg, s1) \<Rightarrow>
      (case digitpart s1 of (ip, s2) \<Rightarrow>
       (case take_fraction s2 of (point, fp, s3) \<Rightarrow>
          if ip = [] \<and> fp = [] then None
          else
            (case take_exponent s3 of
               None \<Rightarrow> None
             | Some (e, s4) \<Rightarrow>
                 if s4 \<noteq> [] then None
                 else
                   (let m = of_int (digits_value ip) + of_int (digits_value fp) / 10 ^ length fp;
                        q = scale10 m e
                    in Some (if neg then - q else q))))))"

section \<open>Cells\<close>

text \<open>
  The value of a cell of the sheet: absent (\<open>None\<close>), text, a number (\<open>int\<close> or
  \<open>float\<close>) or a \<open>datetime\<close> (year, month, day, hour, minute, second).
\<close>

datatype cell =
    Absent
  | Text ustr
  | IntV int
  | FloatV rat
  | DateV int int int int int int

text \<open>The truth value of a cell, as \<open>any\<close>, \<open>or\<close> and \<open>not\<close> take it.\<close>

fun truthy :: "cell \<Rightarrow> bool" where
  "truthy Absent = False"
| "truthy (Text s) = (s \<noteq> [])"
| "truthy (IntV n) = (n \<noteq> 0)"
| "truthy (FloatV q) = (q \<noteq> 0)"
| "truthy (DateV y m d hh mm ss) = True"

subsection \<open>str(value)\<close>

text \<open>
  \<open>str\<close> of an \<open>int\<close> is its decimal numeral; of a \<open>datetime\<close>,
  \<open>YYYY-MM-DD HH:MM:SS\<close>. \<open>str\<close> of a \<open>float\<close> is modelled in positional
  notation with at least one and at most seventeen fractional digits (the exponent
  notation of very large and very small floats is not modelled).
\<close>

function dec_digits :: "int \<Rightarrow> ustr" where
  "dec_digits n = (if n < 10 then [48 + n] else dec_digits (n div 10) @ [48 + n mod 10])"
  by pat_completeness auto
termination
  by (relation "measure nat") auto

declare dec_digits.simps [simp del]

definition pad0 :: "nat \<Rightarrow> int \<Rightarrow> ustr" where
  "pad0 w n = replicate (w - length (dec_digits n)) 48 @ dec_digits n"

fun frac_digits :: "nat \<Rightarrow> rat \<Rightarrow> ustr" where
  "frac_digits 0 f = []"
| "frac_digits (Suc k) f =
     (let d = \<lfloor>10 * f\<rfloor>; f' = 10 * f - of_int d
      in (48 + d) # (if f' = 0 then [] else frac_digits k f'))"

definition str_int :: "int \<Rightarrow> ustr" where
  "str_int n = (if n < 0 then 45 # dec_digits (- n) else dec_digits n)"

definition str_float :: "rat \<Rightarrow> ustr" where
  "str_float q =
     (let a = \<bar>q\<bar>; ip = \<lfloor>a\<rfloor>; f = a - of_int ip
      in (if q < 0 then [45] else []) @ dec_digits ip @ [46] @
         (if f = 0 then [48] else frac_digits 17 f))"

fun py_str :: "cell \<Rightarrow> ustr" where
  "py_str Absent = ascii ''None''"
| "py_str (Text s) = s"
| "py_str (IntV n) = str_int n"
| "py_str (FloatV q) = str_float q"
| "py_str (DateV y m d hh mm ss) =
     pad0 4 y @ [45] @ pad0 2 m @ [45] @ pad0 2 d @ [32] @
     pad0 2 hh @ [58] @ pad0 2 mm @ [58] @ pad0 2 ss"

subsection \<open>helpers.norm\_text\<close>

text \<open>\<open>None\<close> gives the empty string, anything else \<open>str(value).strip()\<close>.\<close>

definition norm_text :: "cell \<Rightarrow> ustr" where
  "norm_text v = (case v of Absent \<Rightarrow> [] | _ \<Rightarrow> strip (py_str v))"

subsection \<open>helpers.parse\_decimal\<close>

text \<open>
  \<open>None\<close> gives \<open>None\<close>; an \<open>int\<close> or a \<open>float\<close> is returned as a float; anything
  else is read as text: \<open>s = str(value).strip()\<close>; an empty \<open>s\<close> and,
  case-insensitively, \<open>nan\<close>, \<open>none\<close> and \<open>-\<close> give \<open>None\<close>; no-break spaces and
  spaces are removed, a comma becomes a point when \<open>locale_comma\<close> is set, and
  \<open>float(s)\<close> is tried, its \<open>ValueError\<close> caught and turned into \<open>None\<close>.
  \<open>float\<close> raises nothing else on a string, so the function never raises.
\<close>

definition parse_decimal :: "cell \<Rightarrow> bool \<Rightarrow> rat option" where
  "parse_decimal v locale_comma =
     (case v of
        Absent \<Rightarrow> None
      | IntV n \<Rightarrow> Some (of_int n)
      | FloatV q \<Rightarrow> Some q
      | _ \<Rightarrow>
         (let s = strip (py_str v) in
          if s = [] \<or> lower s \<in> {ascii ''nan'', ascii ''none'', ascii ''-''} then None
          else
            (let s1 = replace1 32 [] (replace1 160 [32] s);
                 s2 = (if locale_comma then replace1 44 [46] s1 else s1)
             in py_float s2)))"

section \<open>Regular expressions\<close>

text \<open>
  The patterns of the program use literals, \<open>\s+\<close>, \<open>.*\<close>, alternation, a
  counted character class and \<open>\b\<close>, all compiled with \<open>re.IGNORECASE\<close>. A
  pattern is matched by backtracking over a position in the text, kept as the text
  read so far (reversed) and the text ahead; \<open>rx_match\<close> lists the positions where
  a match starting here can end, in the order the backtracking matcher tries them, so
  its first element is the match that \<open>re\<close> reports.
\<close>

datatype cset = Space | NotNewline | AZ09

fun in_cset :: "cset \<Rightarrow> int \<Rightarrow> bool" where
  "in_cset Space c = isspace c"
| "in_cset NotNewline c = (c \<noteq> 10)"
| "in_cset AZ09 c = (isdigit c \<or> (65 \<le> c \<and> c \<le> 90) \<or> (97 \<le> c \<and> c \<le> 122))"

datatype rx =
    Lit ustr
  | Plus cset
  | Star cset
  | Times nat cset
  | WordB
  | Seq rx rx
  | Alt rx rx

fun rx_seq :: "rx list \<Rightarrow> rx" where
  "rx_seq [] = Lit []"
| "rx_seq [r] = r"
| "rx_seq (r # rs) = Seq r (rx_seq rs)"

definition is_word :: "int \<Rightarrow> bool" where
  "is_word c \<longleftrightarrow>
     isdigit c \<or> (65 \<le> c \<and> c \<le> 90) \<or> (97 \<le> c \<and> c \<le> 122) \<or> c = 95 \<or>
     (1024 \<le> c \<and> c \<le> 1153) \<or> (1162 \<le> c \<and> c \<le> 1327)"

fun lit_match :: "ustr \<Rightarrow> ustr \<Rightarrow> ustr \<Rightarrow> (ustr \<times> ustr) list" where
  "lit_match [] l s = [(l, s)]"
| "lit_match (p # ps) l [] = []"
| "lit_match (p # ps) l (x # xs) =
     (if lower_cp x = lower_cp p then lit_match ps (x # l) xs else [])"

fun star_match :: "cset \<Rightarrow> ustr \<Rightarrow> ustr \<Rightarrow> (ustr \<times> ustr) list" where
  "star_match cs l [] = [(l, [])]"
| "star_match cs l (x # xs) =
     (if in_cset cs x then star_match cs (x # l) xs @ [(l, x # xs)] else [(l, x # xs)])"

fun times_match :: "nat \<Rightarrow> cset \<Rightarrow> ustr \<Rightarrow> ustr \<Rightarrow> (ustr \<times> ustr) list" where
  "times_match 0 cs l s = [(l, s)]"
| "times_match (Suc n) cs l [] = []"
| "times_match (Suc n) cs l (x # xs) =
     (if in_cset cs x then times_match n cs (x # l) xs else [])"

definition at_boundary :: "ustr \<Rightarrow> ustr \<Rightarrow> bool" where
  "at_boundary l s \<longleftrightarrow>
     (case l of [] \<Rightarrow> False | c # _ \<Rightarrow> is_word c) \<noteq>
     (case s of [] \<Rightarrow> False | c # _ \<Rightarrow> is_word c)"

fun rx_match :: "rx \<Rightarrow> ustr \<times> ustr \<Rightarrow> (ustr \<times> ustr) list" where
  "rx_match (Lit p) z = lit_match p (fst z) (snd z)"
| "rx_match (Plus cs) z = butlast (star_match cs (fst z) (snd z))"
| "rx_match (Star cs) z = star_match cs (fst z) (snd z)"
| "rx_match (Times n cs) z = times_match n cs (fst z) (snd z)"
| "rx_match WordB z = (if at_boundary (fst z) (snd z) then [z] else [])"
| "rx_match (Seq a b) z = concat (map (rx_match b) (rx_match a z))"
| "rx_match (Alt a b) z = rx_match a z @ rx_match b z"

text \<open>\<open>pattern.search(text)\<close>: the leftmost position where a match starts; the
  result is the matched text, \<open>m.group(0)\<close>.\<close>

definition matched_text :: "ustr \<Rightarrow> ustr \<Rightarrow> ustr" where
  "matched_text l l' = rev (take (length l' - length l) l')"

fun rx_search_from :: "rx \<Rightarrow> ustr \<Rightarrow> ustr \<Rightarrow> ustr option" where
  "rx_search_from r l [] =
     (case rx_match r (l, []) of [] \<Rightarrow> None | z # _ \<Rightarrow> Some (matched_text l (fst z)))"
| "rx_search_from r l (x # xs) =
     (case rx_match r (l, x # xs) of
        [] \<Rightarrow> rx_search_from r (x # l) xs
      | z # _ \<Rightarrow> Some (matched_text l (fst z)))"

definition re_search :: "rx \<Rightarrow> ustr \<Rightarrow> ustr option" where
  "re_search r s = rx_search_from r [] s"

definition re_found :: "rx \<Rightarrow> ustr \<Rightarrow> bool" where
  "re_found r s \<longleftrightarrow> re_search r s \<noteq> None"

section \<open>Dates\<close>

text \<open>
  The proleptic Gregorian calendar of \<open>datetime\<close>, by day numbers counted from
  1970-01-01.
\<close>

definition leap :: "int \<Rightarrow> bool" where
  "leap y \<longleftrightarrow> y mod 4 = 0 \<and> (y mod 100 \<noteq> 0 \<or> y mod 400 = 0)"

definition days_in_month :: "int \<Rightarrow> int \<Rightarrow> int" where
  "days_in_month y m =
     (if m = 2 then (if leap y then 29 else 28)
      else if m = 4 \<or> m = 6 \<or> m = 9 \<or> m = 11 then 30 else 31)"

definition valid_date :: "int \<Rightarrow> int \<Rightarrow> int \<Rightarrow> bool" where
  "valid_date y m d \<longleftrightarrow>
     1 \<le> y \<and> y \<le> 9999 \<and> 1 \<le> m \<and> m \<le> 12 \<and> 1 \<le> d \<and> d \<le> days_in_month y m"

definition days_from_civil :: "int \<Rightarrow> int \<Rightarrow> int \<Rightarrow> int" where
  "days_from_civil y m d =
     (let y' = (if m \<le> 2 then y - 1 else y);
          era = y' div 400;
          yoe = y' - era * 400;
          doy = (153 * (if m > 2 then m - 3 else m + 9) + 2) div 5 + d - 1;
          doe = yoe * 365 + yoe div 4 - yoe div 100 + doy
      in era * 146097 + doe - 719468)"

definition civil_from_days :: "int \<Rightarrow> int \<times> int \<times> int" where
  "civil_from_days z0 =
     (let z = z0 + 719468;
          era = z div 146097;
          doe = z - era * 146097;
          yoe = (doe - doe div 1460 + doe div 36524 - doe div 146096) div 365;
          doy = doe - (365 * yoe + yoe div 4 - yoe div 100);
          mp = (5 * doy + 2) div 153;
          d = doy - (153 * mp + 2) div 5 + 1;
          m = (if mp < 10 then mp + 3 else mp - 9)
      in (if m \<le> 2 then yoe + era * 400 + 1 else yoe + era * 400, m, d))"

text \<open>\<open>dt.strftime("%Y-%m-%d")\<close>.\<close>

definition iso_date :: "int \<Rightarrow> int \<Rightarrow> int \<Rightarrow> ustr" where
  "iso_date y m d = pad0 4 y @ [45] @ pad0 2 m @ [45] @ pad0 2 d"

subsection \<open>datetime.strptime\<close>

text \<open>
  \<open>strptime\<close> turns the format into a regular expression, \<open>%d\<close> into
  \<open>3[0-1]|[1-2]\d|0[1-9]|[1-9]| [1-9]\<close>, \<open>%m\<close> into \<open>1[0-2]|0[1-9]|[1-9]\<close> and
  \<open>%Y\<close> into \<open>\d\d\d\d\<close>, matches it at the start of the text, and raises
  \<open>ValueError\<close> when it does not match, when text remains after the match, or when
  the fields are no date of the calendar.
\<close>

datatype ftok = FDay | FMonth | FYear | FChar int

definition two_chars :: "(int \<Rightarrow> bool) \<Rightarrow> (int \<Rightarrow> bool) \<Rightarrow> ustr \<Rightarrow> (int \<times> ustr) list" where
  "two_chars P Q s =
     (case s of a # b # r \<Rightarrow>
        if P a \<and> Q b then [((if isdigit a then 10 * (a - 48) else 0) + (b - 48), r)] else []
      | _ \<Rightarrow> [])"

definition one_char :: "(int \<Rightarrow> bool) \<Rightarrow> ustr \<Rightarrow> (int \<times> ustr) list" where
  "one_char P s = (case s of a # r \<Rightarrow> if P a then [(a - 48, r)] else [] | [] \<Rightarrow> [])"

definition in_range :: "int \<Rightarrow> int \<Rightarrow> int \<Rightarrow> bool" where
  "in_range lo hi c \<longleftrightarrow> lo \<le> c \<and> c \<le> hi"

definition take_day :: "ustr \<Rightarrow> (int \<times> ustr) list" where
  "take_day s =
     two_chars (in_range 51 51) (in_range 48 49) s @
     two_chars (in_range 49 50) isdigit s @
     two_chars (in_range 48 48) (in_range 49 57) s @
     one_char (in_range 49 57) s @
     two_chars (in_range 32 32) (in_range 49 57) s"

definition take_month :: "ustr \<Rightarrow> (int \<times> ustr) list" where
  "take_month s =
     two_chars (in_range 49 49) (in_range 48 50) s @
     two_chars (in_range 48 48) (in_range 49 57) s @
     one_char (in_range 49 57) s"

definition take_year :: "ustr \<Rightarrow> (int \<times> ustr) list" where
  "take_year s =
     (case s of a # b # c # d # r \<Rightarrow>
        if isdigit a \<and> isdigit b \<and> isdigit c \<and> isdigit d
        then [(1000 * (a - 48) + 100 * (b - 48) + 10 * (c - 48) + (d - 48), r)] else []
      | _ \<Rightarrow> [])"

text \<open>The fields read so far are year, month and day, each 1 until its directive
  is met, as in \<open>strptime\<close> (the year's default, 1900, is never used: every format
  of the program has \<open>%Y\<close>).\<close>

fun fmt_match :: "ftok list \<Rightarrow> int \<times> int \<times> int \<Rightarrow> ustr \<Rightarrow> ((int \<times> int \<times> int) \<times> ustr) list" where
  "fmt_match [] ymd s = [(ymd, s)]"
| "fmt_match (FDay # ts) ymd s =
     concat (map (\<lambda>(v, r). fmt_match ts (fst ymd, fst (snd ymd), v) r) (take_day s))"
| "fmt_match (FMonth # ts) ymd s =
     concat (map (\<lambda>(v, r). fmt_match ts (fst ymd, v, snd (snd ymd)) r) (take_month s))"
| "fmt_match (FYear # ts) ymd s =
     concat (map (\<lambda>(v, r). fmt_match ts (v, snd ymd) r) (take_year s))"
| "fmt_match (FChar c # ts) ymd s =
     (case s of x # xs \<Rightarrow> if lower_cp x = lower_cp c then fmt_match ts ymd xs else [] | [] \<Rightarrow> [])"

definition strptime :: "ustr \<Rightarrow> ftok list \<Rightarrow> (int \<times> int \<times> int) option" where
  "strptime s fmt =
     (case fmt_match fmt (1, 1, 1) s of
        [] \<Rightarrow> None
      | ((y, m, d), r) # _ \<Rightarrow> if r = [] \<and> valid_date y m d then Some (y, m, d) else None)"

definition DATE_FORMATS :: "ftok list list" where
  "DATE_FORMATS =
     [[FDay, FChar 46, FMonth, FChar 46, FYear],
      [FDay, FChar 45, FMonth, FChar 45, FYear],
      [FYear, FChar 45, FMonth, FChar 45, FDay],
      [FYear, FChar 46, FMonth, FChar 46, FDay]]"

subsection \<open>helpers.parse\_date\<close>

text \<open>
  \<open>None\<close> and blank text give \<open>None\<close>; a \<open>datetime\<close> is formatted; otherwise the
  four formats are tried in order on \<open>str(value).strip()\<close>, and then the text is
  read as a spreadsheet serial number, \<open>datetime(1899, 12, 30) +
  timedelta(days=float(s))\<close>, any exception giving \<open>None\<close>. \<open>timedelta\<close> rounds
  to a whole number of microseconds, half to even; the sum raises \<open>OverflowError\<close>
  outside the years 1 to 9999.
\<close>

definition round_half_even :: "rat \<Rightarrow> int" where
  "round_half_even q =
     (let f = \<lfloor>q\<rfloor>; r = q - of_int f
      in if r < 1 / 2 then f else if 1 / 2 < r then f + 1 else if even f then f else f + 1)"

definition serial_date :: "rat \<Rightarrow> ustr option" where
  "serial_date num =
     (let us = round_half_even (num * 86400000000);
          day = days_from_civil 1899 12 30 + us div 86400000000
      in if days_from_civil 1 1 1 \<le> day \<and> day \<le> days_from_civil 9999 12 31
         then (case civil_from_days day of (y, m, d) \<Rightarrow> Some (iso_date y m d))
         else None)"

fun first_format :: "ustr \<Rightarrow> ftok list list \<Rightarrow> (int \<times> int \<times> int) option" where
  "first_format s [] = None"
| "first_format s (fmt # fmts) =
     (case strptime s fmt of Some ymd \<Rightarrow> Some ymd | None \<Rightarrow> first_format s fmts)"

definition parse_date :: "cell \<Rightarrow> ustr option" where
  "parse_date v =
     (if v = Absent \<or> strip (py_str v) = [] then None
      else
        (case v of
           DateV y m d hh mm ss \<Rightarrow> Some (iso_date y m d)
         | _ \<Rightarrow>
            (let s = strip (py_str v) in
             case first_format s DATE_FORMATS of
               Some (y, m, d) \<Rightarrow> Some (iso_date y m d)
             | None \<Rightarrow>
                (case py_float s of None \<Rightarrow> None | Some num \<Rightarrow> serial_date num))))"

section \<open>helpers.py: currency codes, keys, ISIN, exchanges\<close>

text \<open>
  \<open>normalize_currency\<close>: a false value (\<open>None\<close>, the empty string) is returned as it
  is; otherwise the code is stripped and upper-cased, and RUR becomes RUB.
\<close>

definition normalize_currency :: "ustr option \<Rightarrow> ustr option" where
  "normalize_currency ccy =
     (case ccy of
        None \<Rightarrow> None
      | Some s \<Rightarrow>
          if s = [] then Some s
          else (let c = upper (strip s)
                in if c \<in> {ascii ''RUR'', ascii ''RUB''} then Some (ascii ''RUB'') else Some c))"

text \<open>
  \<open>norm_key\<close>: lower case, the letter yo folded to ye, the quote characters
  \<open>" ' ` << >>\<close> removed, and then every code point removed that is not in
  \<open>[a-z0-9]\<close> or a small Cyrillic letter a..ya.
\<close>

definition norm_key :: "ustr \<Rightarrow> ustr" where
  "norm_key s =
     (let t = lower s;
          t1 = replace1 1105 [1077] t;
          t2 = filter (\<lambda>c. c \<notin> {34, 39, 96, 171, 187}) t1
      in filter (\<lambda>c. (97 \<le> c \<and> c \<le> 122) \<or> isdigit c \<or> (1072 \<le> c \<and> c \<le> 1103)) t2)"

text \<open>\<open>_ISIN_RE = \bRU[A-Z0-9]{10}\b\<close>, ignoring case; \<open>isin_from_text\<close> returns
  the first match in upper case. Its argument may be \<open>None\<close>, taken as the empty
  string.\<close>

definition ISIN_RE :: rx where
  "ISIN_RE = rx_seq [WordB, Lit (ascii ''RU''), Times 10 AZ09, WordB]"

definition isin_from_text :: "ustr option \<Rightarrow> ustr option" where
  "isin_from_text text =
     (case re_search ISIN_RE (case text of None \<Rightarrow> [] | Some t \<Rightarrow> t) of
        None \<Rightarrow> None
      | Some m \<Rightarrow> Some (upper m))"

text \<open>\<open>to_exchange\<close> with its default table, searched in the order it is written:
  the first key that occurs in the stripped, lower-cased place wins.\<close>

definition EXCHANGE_MAP :: "(ustr \<times> ustr) list" where
  "EXCHANGE_MAP =
     [([1084, 1086, 1089, 1082, 1086, 1074] \<comment> \<open>moskov\<close>, ascii ''MCX''),
      (ascii ''moex'', ascii ''MCX''),
      ([1084, 1086, 1089, 1073, 1080, 1088] \<comment> \<open>mosbir\<close>, ascii ''MCX''),
      ([1089, 1087, 1073] \<comment> \<open>spb\<close>, ascii ''SPB''),
      (ascii ''spb'', ascii ''SPB''),
      (ascii ''nasdaq'', ascii ''NASDAQ''),
      (ascii ''nyse'', ascii ''NYSE''),
      (ascii ''lse'', ascii ''LSE''),
      (ascii ''hk'', ascii ''HK'')]"

fun first_key_in :: "ustr \<Rightarrow> (ustr \<times> ustr) list \<Rightarrow> ustr option" where
  "first_key_in s [] = None"
| "first_key_in s ((key, val) # rest) = (if contains s key then Some val else first_key_in s rest)"

definition to_exchange :: "ustr option \<Rightarrow> ustr option" where
  "to_exchange place =
     (case place of
        None \<Rightarrow> None
      | Some p \<Rightarrow> if p = [] then None else first_key_in (lower (strip p)) EXCHANGE_MAP)"

section \<open>The sheet\<close>

text \<open>
  The worksheet is the grid of its cell values, row by row; \<open>max_row\<close> and
  \<open>max_column\<close> are its extents, \<open>ws.cell(r, c).value\<close> is read with both indices
  counted from 1, and a cell that a short row does not have is absent.
\<close>

type_synonym worksheet = "cell list list"

definition max_row :: "worksheet \<Rightarrow> nat" where
  "max_row ws = length ws"

definition max_column :: "worksheet \<Rightarrow> nat" where
  "max_column ws = foldr (\<lambda>row n. max (length row) n) ws 0"

definition cell_value :: "worksheet \<Rightarrow> nat \<Rightarrow> nat \<Rightarrow> cell" where
  "cell_value ws r c =
     (if 1 \<le> r \<and> r \<le> length ws \<and> 1 \<le> c \<and> c \<le> length (ws ! (r - 1))
      then ws ! (r - 1) ! (c - 1) else Absent)"

text \<open>\<open>[ws.cell(r, c).value for c in range(1, ws.max_column + 1)]\<close>\<close>

definition row_values :: "worksheet \<Rightarrow> nat \<Rightarrow> cell list" where
  "row_values ws r = map (cell_value ws r) [1 ..< Suc (max_column ws)]"

text \<open>The rows \<open>r\<close>, \<open>r + 1\<close>, ... up to \<open>max_row\<close>, which a
  \<open>while r <= ws.max_row\<close> loop visits.\<close>

definition rows_from :: "worksheet \<Rightarrow> nat \<Rightarrow> cell list list" where
  "rows_from ws r = map (row_values ws) [r ..< Suc (max_row ws)]"

fun join :: "ustr \<Rightarrow> ustr list \<Rightarrow> ustr" where
  "join sep [] = []"
| "join sep [s] = s"
| "join sep (s # t # ts) = s @ sep @ join sep (t # ts)"

text \<open>\<open>" | ".join(norm_text(c) for c in row)\<close>\<close>

definition line_text :: "cell list \<Rightarrow> ustr" where
  "line_text values = join [32, 124, 32] (map norm_text values)"

subsection \<open>helpers.find\_section\_title\<close>

text \<open>The number (from 1) of the first row whose text the pattern is found in.\<close>

fun first_title_row :: "rx \<Rightarrow> nat \<Rightarrow> cell list list \<Rightarrow> nat option" where
  "first_title_row pattern i [] = None"
| "first_title_row pattern i (row # rows) =
     (if re_found pattern (line_text row) then Some i else first_title_row pattern (Suc i) rows)"

definition find_section_title :: "worksheet \<Rightarrow> rx \<Rightarrow> nat option" where
  "find_section_title ws pattern = first_title_row pattern 1 (rows_from ws 1)"

subsection \<open>helpers.match\_header\_indices\<close>

text \<open>
  A dictionary is the list of its items in insertion order, with distinct keys.
  \<open>setdefault\<close> stores a value only under a key that is not there yet.
  The loops of \<open>match_header_indices\<close> run over the cells with their index from 0
  (cells whose text is empty are passed over), the fields of the mapping, and the
  variants of a field.
\<close>

definition setdefault :: "('k \<times> 'v) list \<Rightarrow> 'k \<Rightarrow> 'v \<Rightarrow> ('k \<times> 'v) list" where
  "setdefault m k v = (case map_of m k of None \<Rightarrow> m @ [(k, v)] | Some _ \<Rightarrow> m)"

type_synonym header_keys = "(string \<times> ustr list) list"
type_synonym idx_map = "(string \<times> nat) list"

fun mh_variants :: "ustr \<Rightarrow> string \<Rightarrow> nat \<Rightarrow> ustr list \<Rightarrow> idx_map \<Rightarrow> idx_map" where
  "mh_variants text key j [] m = m"
| "mh_variants text key j (v # vs) m =
     mh_variants text key j vs (if contains text (lower v) then setdefault m key j else m)"

fun mh_keys :: "ustr \<Rightarrow> nat \<Rightarrow> header_keys \<Rightarrow> idx_map \<Rightarrow> idx_map" where
  "mh_keys text j [] m = m"
| "mh_keys text j ((key, variants) # rest) m =
     mh_keys text j rest (mh_variants text key j variants m)"

fun mh_cells :: "header_keys \<Rightarrow> nat \<Rightarrow> cell list \<Rightarrow> idx_map \<Rightarrow> idx_map" where
  "mh_cells mapping j [] m = m"
| "mh_cells mapping j (cell # cells) m =
     (let text = lower (norm_text cell)
      in mh_cells mapping (Suc j) cells (if text = [] then m else mh_keys text j mapping m))"

definition match_header_indices :: "cell list \<Rightarrow> header_keys \<Rightarrow> idx_map" where
  "match_header_indices values mapping = mh_cells mapping 0 values []"

subsection \<open>helpers.find\_header\_below\<close>

text \<open>
  The exceptions of the program: the two \<open>RuntimeError\<close>s it raises itself (the
  trades section is not found; no table header is found below a section title), and
  those of the interpreter that its statements could raise.
\<close>

datatype error = SectionNotFound | HeaderNotFound | IndexError | KeyError | ZeroDivisionError

text \<open>\<open>set(needed).issubset(idx_map.keys())\<close>\<close>

definition has_all :: "string list \<Rightarrow> idx_map \<Rightarrow> bool" where
  "has_all needed m = list_all (\<lambda>k. map_of m k \<noteq> None) needed"

fun header_scan ::
  "worksheet \<Rightarrow> header_keys \<Rightarrow> string list \<Rightarrow> nat list \<Rightarrow> error + (nat \<times> idx_map)" where
  "header_scan ws mapping needed [] = Inl HeaderNotFound"
| "header_scan ws mapping needed (i # is) =
     (let idx = match_header_indices (row_values ws i) mapping
      in if has_all needed idx then Inr (i, idx) else header_scan ws mapping needed is)"

definition find_header_below ::
  "worksheet \<Rightarrow> nat \<Rightarrow> header_keys \<Rightarrow> string list \<Rightarrow> nat \<Rightarrow> error + (nat \<times> idx_map)" where
  "find_header_below ws start_row mapping needed lookahead =
     (let max_r = min (max_row ws) (start_row + lookahead)
      in header_scan ws mapping needed [Suc start_row ..< Suc max_r])"

text \<open>The default of the parameter \<open>lookahead\<close>, which every call of the program
  leaves in place.\<close>

definition LOOKAHEAD :: nat where
  "LOOKAHEAD = 25"

section \<open>core.py: constants and the target row\<close>

text \<open>The section titles (each compiled with \<open>re.IGNORECASE\<close>):
  \<^item> trades: \<open>sdelki\s+s\s+cenn(ymi|ymi)\s+bumagami\<close>
  \<^item> portfolio: \<open>sostoyanie\s+portfelya\s+cenn(yh|ymi)\s+bumag\<close>
  \<^item> cash movement: \<open>dvizhenie\s+denezhnyh\s+sredstv.*za\s+otchetnyj\s+period\<close>
  \<^item> settlement: \<open>ispolnenie\s+obyazatel'stv\s+po\s+sdelke\<close>
  and the pattern of a subtotal row, \<open>itogo\s+po\s+vypusku\<close>.\<close>

definition SECTION_TRADES_RE :: rx where
  "SECTION_TRADES_RE =
     rx_seq
       [Lit [1089, 1076, 1077, 1083, 1082, 1080] \<comment> \<open>sdelki\<close>,
        Plus Space,
        Lit [1089] \<comment> \<open>s\<close>,
        Plus Space,
        Lit [1094, 1077, 1085, 1085] \<comment> \<open>cenn\<close>,
        Alt (Lit [1099, 1084, 1080] \<comment> \<open>ymi\<close>) (Lit [1099, 1084, 1080] \<comment> \<open>ymi\<close>),
        Plus Space,
        Lit [1073, 1091, 1084, 1072, 1075, 1072, 1084, 1080] \<comment> \<open>bumagami\<close>]"

definition SECTION_PORTFOLIO_RE :: rx where
  "SECTION_PORTFOLIO_RE =
     rx_seq
       [Lit [1089, 1086, 1089, 1090, 1086, 1103, 1085, 1080, 1077] \<comment> \<open>sostoyanie\<close>,
        Plus Space,
        Lit [1087, 1086, 1088, 1090, 1092, 1077, 1083, 1103] \<comment> \<open>portfelya\<close>,
        Plus Space,
        Lit [1094, 1077, 1085, 1085] \<comment> \<open>cenn\<close>,
        Alt (Lit [1099, 1093] \<comment> \<open>yh\<close>) (Lit [1099, 1084, 1080] \<comment> \<open>ymi\<close>),
        Plus Space,
        Lit [1073, 1091, 1084, 1072, 1075] \<comment> \<open>bumag\<close>]"

definition SECTION_CASH_RE :: rx where
  "SECTION_CASH_RE =
     rx_seq
       [Lit [1076, 1074, 1080, 1078, 1077, 1085, 1080, 1077] \<comment> \<open>dvizhenie\<close>,
        Plus Space,
        Lit [1076, 1077, 1085, 1077, 1078, 1085, 1099, 1093] \<comment> \<open>denezhnyh\<close>,
        Plus Space,
        Lit [1089, 1088, 1077, 1076, 1089, 1090, 1074] \<comment> \<open>sredstv\<close>,
        Star NotNewline,
        Lit [1079, 1072] \<comment> \<open>za\<close>,
        Plus Space,
        Lit [1086, 1090, 1095, 1077, 1090, 1085, 1099, 1081] \<comment> \<open>otchetnyj\<close>,
        Plus Space,
        Lit [1087, 1077, 1088, 1080, 1086, 1076] \<comment> \<open>period\<close>]"

definition SECTION_CLEARANCE_RE :: rx where
  "SECTION_CLEARANCE_RE =
     rx_seq
       [Lit [1080, 1089, 1087, 1086, 1083, 1085, 1077, 1085, 1080, 1077] \<comment> \<open>ispolnenie\<close>,
        Plus Space,
        Lit [1086, 1073, 1103, 1079, 1072, 1090, 1077, 1083, 1100, 1089, 1090, 1074] \<comment> \<open>obyazatel'stv\<close>,
        Plus Space,
        Lit [1087, 1086] \<comment> \<open>po\<close>,
        Plus Space,
        Lit [1089, 1076, 1077, 1083, 1082, 1077] \<comment> \<open>sdelke\<close>]"

definition TOTAL_FOR_ISSUE_RE :: rx where
  "TOTAL_FOR_ISSUE_RE =
     rx_seq
       [Lit [1080, 1090, 1086, 1075, 1086] \<comment> \<open>itogo\<close>,
        Plus Space,
        Lit [1087, 1086] \<comment> \<open>po\<close>,
        Plus Space,
        Lit [1074, 1099, 1087, 1091, 1089, 1082, 1091] \<comment> \<open>vypusku\<close>]"

definition TRADE_TYPES_MAP :: "(ustr \<times> string) list" where
  "TRADE_TYPES_MAP =
     [([1087, 1086, 1082, 1091, 1087, 1082, 1072] \<comment> \<open>pokupka\<close>, ''Buy''),
      ([1087, 1088, 1086, 1076, 1072, 1078, 1072] \<comment> \<open>prodazha\<close>, ''Sell'')]"

definition HEADER_KEYS_TRADES :: header_keys where
  "HEADER_KEYS_TRADES =
     [(''deal_no'', [[1085, 1086, 1084, 1077, 1088, 32, 1089, 1076, 1077, 1083, 1082, 1080] \<comment> \<open>nomer sdelki\<close>]),
      (''deal_date'', [[1076, 1072, 1090, 1072, 32, 1089, 1076, 1077, 1083, 1082, 1080] \<comment> \<open>data sdelki\<close>]),
      (''deal_time'', [[1074, 1088, 1077, 1084, 1103, 32, 1089, 1076, 1077, 1083, 1082, 1080] \<comment> \<open>vremya sdelki\<close>]),
      (''deal_type'', [[1074, 1080, 1076, 32, 1089, 1076, 1077, 1083, 1082, 1080] \<comment> \<open>vid sdelki\<close>]),
      (''price'', [[1094, 1077, 1085, 1072, 32, 1086, 1076, 1085, 1086, 1081, 32, 1094, 1073] \<comment> \<open>cena odnoj cb\<close>,
                   [1094, 1077, 1085, 1072, 32, 1086, 1076, 1085, 1086, 1081] \<comment> \<open>cena odnoj\<close>,
                   [1094, 1077, 1085, 1072, 32, 1094, 1073] \<comment> \<open>cena cb\<close>]),
      (''price_ccy'', [[1074, 1072, 1083, 1102, 1090, 1072, 32, 1094, 1077, 1085, 1099] \<comment> \<open>valyuta ceny\<close>]),
      (''qty'', [[1082, 1086, 1083, 1080, 1095, 1077, 1089, 1090, 1074, 1086, 32, 1094, 1073] \<comment> \<open>kolichestvo cb\<close>,
                 [1082, 1086, 1083, 1080, 1095, 1077, 1089, 1090, 1074, 1086] \<comment> \<open>kolichestvo\<close>,
                 [1082, 1086, 1083, 45, 1074, 1086, 32, 1094, 1073] \<comment> \<open>kol-vo cb\<close>]),
      (''nkd'', [[1085, 1082, 1076] \<comment> \<open>nkd\<close>]),
      (''amount'', [[1089, 1091, 1084, 1084, 1072, 32, 1089, 1076, 1077, 1083, 1082, 1080] \<comment> \<open>summa sdelki\<close>,
                    [1089, 1091, 1084, 1084, 1072] \<comment> \<open>summa\<close>]),
      (''amount_ccy'', [[1074, 1072, 1083, 1102, 1090, 1072, 32, 1089, 1091, 1084, 1084, 1099] \<comment> \<open>valyuta summy\<close>]),
      (''comm_ts'', [[1082, 1086, 1084, 1080, 1089, 1089, 1080, 1103, 32, 1090, 1089] \<comment> \<open>komissiya ts\<close>,
                     [1082, 1086, 1084, 1080, 1089, 1089, 1080, 1103, 32, 1090, 1086, 1088, 1075, 1086, 1074, 1086, 1081, 32, 1089, 1080, 1089, 1090, 1077, 1084, 1099] \<comment> \<open>komissiya torgovoj sistemy\<close>]),
      (''comm_broker'', [[1082, 1086, 1084, 1080, 1089, 1089, 1080, 1103, 32, 1073, 1088, 1086, 1082, 1077, 1088, 1072] \<comment> \<open>komissiya brokera\<close>]),
      (''place'', [[1084, 1077, 1089, 1090, 1086, 32, 1089, 1086, 1074, 1077, 1088, 1096, 1077, 1085, 1080, 1103, 32, 1089, 1076, 1077, 1083, 1082, 1080] \<comment> \<open>mesto soversheniya sdelki\<close>,
                   [1084, 1077, 1089, 1090, 1086, 32, 1089, 1076, 1077, 1083, 1082, 1080] \<comment> \<open>mesto sdelki\<close>,
                   [1087, 1083, 1086, 1097, 1072, 1076, 1082, 1072] \<comment> \<open>ploshchadka\<close>])]"

definition TRADES_NEEDED :: "string list" where
  "TRADES_NEEDED = [''deal_date'', ''deal_type'', ''price'', ''qty'', ''amount'', ''amount_ccy'']"

definition HEADER_KEYS_CASH :: header_keys where
  "HEADER_KEYS_CASH =
     [(''op_no'', [[8470, 32, 1086, 1087, 1077, 1088, 1072, 1094, 1080, 1080] \<comment> \<open>No. operacii\<close>,
                   [1085, 1086, 1084, 1077, 1088, 32, 1086, 1087, 1077, 1088, 1072, 1094, 1080, 1080] \<comment> \<open>nomer operacii\<close>,
                   [8470, 32, 1086, 1087, 1077, 1088, 1072, 1094, 1080, 1080] \<comment> \<open>No. operacii\<close>]),
      (''date'', [[1076, 1072, 1090, 1072] \<comment> \<open>data\<close>]),
      (''type'', [[1090, 1080, 1087, 32, 1086, 1087, 1077, 1088, 1072, 1094, 1080, 1080] \<comment> \<open>tip operacii\<close>]),
      (''amount'', [[1089, 1091, 1084, 1084, 1072] \<comment> \<open>summa\<close>]),
      (''ccy'', [[1074, 1072, 1083, 1102, 1090, 1072] \<comment> \<open>valyuta\<close>]),
      (''comment'', [[1082, 1086, 1084, 1084, 1077, 1085, 1090, 1072, 1088, 1080, 1081] \<comment> \<open>kommentarij\<close>,
                     [1087, 1088, 1080, 1084, 1077, 1095, 1072, 1085, 1080, 1077] \<comment> \<open>primechanie\<close>])]"

definition CASH_NEEDED :: "string list" where
  "CASH_NEEDED = [''date'', ''type'', ''amount'', ''ccy'']"

definition HEADER_KEYS_PORTFOLIO :: header_keys where
  "HEADER_KEYS_PORTFOLIO =
     [(''name'', [[1085, 1072, 1080, 1084, 1077, 1085, 1086, 1074, 1072, 1085, 1080, 1077, 32, 1094, 1073] \<comment> \<open>naimenovanie cb\<close>,
                  [1085, 1072, 1080, 1084, 1077, 1085, 1086, 1074, 1072, 1085, 1080, 1077] \<comment> \<open>naimenovanie\<close>,
                  [1080, 1085, 1089, 1090, 1088, 1091, 1084, 1077, 1085, 1090] \<comment> \<open>instrument\<close>]),
      (''isin'', [ascii ''isin''])]"

record TargetRow =
  Event :: string
  Date :: ustr
  Symbol :: "ustr option"
  Price :: "rat option"
  Quantity :: "rat option"
  Currency :: "ustr option"
  FeeTax :: "rat option"
  Exchange :: "ustr option"
  NKD :: "rat option"
  FeeCurrency :: "ustr option"
  DoNotAdjustCash :: "ustr option"
  Note :: "ustr option"

subsection \<open>core.find\_isin\_by\_name\<close>

text \<open>
  The instrument index \<open>name_to_isin\<close> is a dictionary from normalised names to
  ISINs, iterated in insertion order. An empty text gives \<open>None\<close>; otherwise the
  first item whose key is not empty and occurs in \<open>norm_key(text)\<close> gives its ISIN.
\<close>

type_synonym isin_index = "(ustr \<times> ustr) list"

fun first_name_in :: "ustr \<Rightarrow> isin_index \<Rightarrow> ustr option" where
  "first_name_in key [] = None"
| "first_name_in key ((nk, isin) # rest) =
     (if nk \<noteq> [] \<and> contains key nk then Some isin else first_name_in key rest)"

definition find_isin_by_name :: "ustr \<Rightarrow> isin_index \<Rightarrow> ustr option" where
  "find_isin_by_name text name_to_isin =
     (if text = [] then None else first_name_in (norm_key text) name_to_isin)"

section \<open>Exceptions and loop exits\<close>

text \<open>
  An exception ends the whole call: a computation that can raise returns
  \<open>error + 'a\<close>, and \<open>bindE\<close> runs the next statement on a result. One pass of
  a loop body ends with \<open>break\<close> or goes on to the next row.
\<close>

definition bindE :: "error + 'a \<Rightarrow> ('a \<Rightarrow> error + 'b) \<Rightarrow> error + 'b" where
  "bindE m f = (case m of Inl e \<Rightarrow> Inl e | Inr x \<Rightarrow> f x)"

datatype 'a ctl = Break 'a | Continue 'a

section \<open>core.parse\_portfolio\_isin\_map\<close>

text \<open>
  The index is built from the portfolio section; without the section it is empty.
  \<open>mapping[k] = v\<close> replaces the value of a key that is there, in its place, and
  appends a new key. A row whose name and ISIN cells are both false ends the table
  when each of its cells is \<open>None\<close>, the empty string or a single space, and is
  passed over otherwise; a row is used when its name and its ISIN text are not empty.
\<close>

fun dict_set :: "('k \<times> 'v) list \<Rightarrow> 'k \<Rightarrow> 'v \<Rightarrow> ('k \<times> 'v) list" where
  "dict_set [] k v = [(k, v)]"
| "dict_set ((k', v') # m) k v = (if k' = k then (k, v) # m else (k', v') # dict_set m k v)"

definition portfolio_row ::
  "worksheet \<Rightarrow> nat \<Rightarrow> nat \<Rightarrow> nat \<Rightarrow> isin_index \<Rightarrow> isin_index ctl" where
  "portfolio_row ws name_col isin_col r mapping =
     (let name = cell_value ws r name_col; isin = cell_value ws r isin_col in
      if \<not> (truthy name \<or> truthy isin)
      then (if list_all (\<lambda>v. v \<in> {Absent, Text [], Text [32]}) (row_values ws r)
            then Break mapping else Continue mapping)
      else
        (let name_s = norm_text name;
             isin_s = (case isin_from_text (Some (norm_text isin)) of
                         Some s \<Rightarrow> s | None \<Rightarrow> norm_text isin)
         in if name_s \<noteq> [] \<and> isin_s \<noteq> []
            then Continue (dict_set mapping (norm_key name_s) isin_s)
            else Continue mapping))"

fun portfolio_loop :: "worksheet \<Rightarrow> nat \<Rightarrow> nat \<Rightarrow> nat list \<Rightarrow> isin_index \<Rightarrow> isin_index" where
  "portfolio_loop ws name_col isin_col [] mapping = mapping"
| "portfolio_loop ws name_col isin_col (r # rs) mapping =
     (case portfolio_row ws name_col isin_col r mapping of
        Break m \<Rightarrow> m
      | Continue m \<Rightarrow> portfolio_loop ws name_col isin_col rs m)"

text \<open>\<open>idx["name"]\<close> raises \<open>KeyError\<close> for a missing key.\<close>

definition lookup :: "idx_map \<Rightarrow> string \<Rightarrow> error + nat" where
  "lookup idx k = (case map_of idx k of None \<Rightarrow> Inl KeyError | Some j \<Rightarrow> Inr j)"

definition parse_portfolio_isin_map :: "worksheet \<Rightarrow> error + isin_index" where
  "parse_portfolio_isin_map ws =
     (case find_section_title ws SECTION_PORTFOLIO_RE of
        None \<Rightarrow> Inr []
      | Some title_row \<Rightarrow>
          bindE (find_header_below ws title_row HEADER_KEYS_PORTFOLIO [''name'', ''isin''] LOOKAHEAD)
            (\<lambda>(header_row, idx).
               bindE (lookup idx ''name'') (\<lambda>name_j.
               bindE (lookup idx ''isin'') (\<lambda>isin_j.
                 Inr (portfolio_loop ws (name_j + 1) (isin_j + 1)
                        [Suc header_row ..< Suc (max_row ws)] [])))))"

section \<open>core.parse\_trades\_to\_target\<close>

text \<open>\<open>values[j]\<close> raises \<open>IndexError\<close> past the end of the list.\<close>

definition nth_value :: "cell list \<Rightarrow> nat \<Rightarrow> error + cell" where
  "nth_value values j = (if j < length values then Inr (values ! j) else Inl IndexError)"

text \<open>\<open>f(values[get(name)]) if get(name) is not None else dflt\<close>, where
  \<open>get = lambda name: idx_map.get(name, None)\<close>.\<close>

definition column_with :: "idx_map \<Rightarrow> cell list \<Rightarrow> string \<Rightarrow> 'a \<Rightarrow> (cell \<Rightarrow> 'a) \<Rightarrow> error + 'a" where
  "column_with idx values name dflt f =
     (case map_of idx name of
        None \<Rightarrow> Inr dflt
      | Some j \<Rightarrow> bindE (nth_value values j) (\<lambda>c. Inr (f c)))"

text \<open>\<open>x or 0.0\<close> for an optional float \<open>x\<close>.\<close>

definition or_zero :: "rat option \<Rightarrow> rat" where
  "or_zero x = (case x of None \<Rightarrow> 0 | Some v \<Rightarrow> v)"

text \<open>\<open>s or None\<close> and \<open>a or b\<close> for optional strings: an empty string is false.\<close>

definition or_else :: "ustr option \<Rightarrow> ustr option \<Rightarrow> ustr option" where
  "or_else a b = (case a of None \<Rightarrow> b | Some s \<Rightarrow> if s = [] then b else Some s)"

text \<open>
  The state of the scan: the rows emitted so far, the batch of the current issue
  (pairs of an index into the rows and an absolute amount) with its accumulated fee,
  and the text and ISIN of the current issue.
\<close>

record scan_state =
  rows :: "TargetRow list"
  batch_items :: "(nat \<times> rat) list"
  batch_total_fee :: rat
  current_issue_text :: "ustr option"
  current_issue_isin :: "ustr option"

definition init_state :: scan_state where
  "init_state = \<lparr>rows = [], batch_items = [], batch_total_fee = 0,
                  current_issue_text = None, current_issue_isin = None\<rparr>"

subsection \<open>flush\_batch\<close>

text \<open>
  \<^verbatim>\<open>
  def flush_batch():
      nonlocal batch_items, batch_total_fee
      if alloc_commission and batch_items and batch_total_fee:
          total = sum(a for _, a in batch_items) or 1.0
          for idx_row, a in batch_items:
              share = batch_total_fee * (a / total)
              rows[idx_row].FeeTax = (rows[idx_row].FeeTax or 0.0) + share
      batch_items = []
      batch_total_fee = 0.0
  \<close>
  The division raises \<open>ZeroDivisionError\<close> on a zero divisor and \<open>rows[idx_row]\<close>
  raises \<open>IndexError\<close> past the end of the list: both are branches of the model.
\<close>

definition py_div :: "rat \<Rightarrow> rat \<Rightarrow> error + rat" where
  "py_div a b = (if b = 0 then Inl ZeroDivisionError else Inr (a / b))"

definition add_fee :: "rat \<Rightarrow> TargetRow \<Rightarrow> TargetRow" where
  "add_fee share row = row\<lparr>FeeTax := Some (or_zero (FeeTax row) + share)\<rparr>"

fun allocate :: "rat \<Rightarrow> rat \<Rightarrow> (nat \<times> rat) list \<Rightarrow> TargetRow list \<Rightarrow> error + TargetRow list" where
  "allocate fee tot [] rs = Inr rs"
| "allocate fee tot ((idx_row, a) # items) rs =
     bindE (py_div a tot) (\<lambda>q.
       let share = fee * q
       in if idx_row < length rs
          then allocate fee tot items (rs[idx_row := add_fee share (rs ! idx_row)])
          else Inl IndexError)"

definition batch_total :: "(nat \<times> rat) list \<Rightarrow> rat" where
  "batch_total items = (let s = sum_list (map snd items) in if s = 0 then 1 else s)"

definition flush_batch :: "bool \<Rightarrow> scan_state \<Rightarrow> error + scan_state" where
  "flush_batch alloc_commission st =
     (if alloc_commission \<and> batch_items st \<noteq> [] \<and> batch_total_fee st \<noteq> 0
      then bindE (allocate (batch_total_fee st) (batch_total (batch_items st))
                    (batch_items st) (rows st))
             (\<lambda>rs. Inr (st\<lparr>rows := rs, batch_items := [], batch_total_fee := 0\<rparr>))
      else Inr (st\<lparr>batch_items := [], batch_total_fee := 0\<rparr>))"

subsection \<open>The row scan\<close>

definition is_section_end :: "ustr \<Rightarrow> bool" where
  "is_section_end lt \<longleftrightarrow>
     re_found SECTION_CASH_RE lt \<or> re_found SECTION_PORTFOLIO_RE lt \<or>
     re_found SECTION_CLEARANCE_RE lt"

text \<open>The row of a "total for issue": the two commission cells are added to the
  fee of the batch, and the batch is flushed.\<close>

definition subtotal_row :: "idx_map \<Rightarrow> bool \<Rightarrow> bool \<Rightarrow> cell list \<Rightarrow> scan_state \<Rightarrow> error + scan_state" where
  "subtotal_row idx alloc_commission locale_comma values st =
     bindE (column_with idx values ''comm_ts'' Absent id) (\<lambda>c_ts.
     bindE (column_with idx values ''comm_broker'' Absent id) (\<lambda>c_br.
       let comm_ts = parse_decimal c_ts locale_comma;
           comm_br = parse_decimal c_br locale_comma
       in flush_batch alloc_commission
            (st\<lparr>batch_total_fee := batch_total_fee st + (or_zero comm_ts + or_zero comm_br)\<rparr>)))"

text \<open>The header line of an issue (the deal type is blank): its non-blank cells,
  joined by spaces, become the text of the current issue, and its ISIN is looked
  for in the text and then in the index.\<close>

definition issue_row :: "isin_index \<Rightarrow> cell list \<Rightarrow> scan_state \<Rightarrow> scan_state" where
  "issue_row name_to_isin values st =
     (let head_text = join [32] (filter (\<lambda>s. s \<noteq> []) (map norm_text values))
      in if head_text \<noteq> []
         then st\<lparr>current_issue_text := Some head_text,
                 current_issue_isin :=
                   or_else (isin_from_text (Some head_text))
                           (find_isin_by_name head_text name_to_isin)\<rparr>
         else st)"

text \<open>A trade: the record is appended, and when the trade has an amount and no
  commission of its own it joins the batch, with the index of its record.\<close>

definition emit_trade ::
  "bool \<Rightarrow> string \<Rightarrow> ustr \<Rightarrow> rat option \<Rightarrow> rat option \<Rightarrow> rat option \<Rightarrow> rat option \<Rightarrow>
   ustr option \<Rightarrow> rat option \<Rightarrow> rat option \<Rightarrow> ustr option \<Rightarrow> scan_state \<Rightarrow> scan_state" where
  "emit_trade alloc_commission event deal_date price qty nkd amount ccy fee_ts fee_br place st =
     (let fee0 = or_zero fee_ts + or_zero fee_br;
          fee = (if fee0 \<noteq> 0 then Some fee0 else None);
          exchange = to_exchange place;
          row = \<lparr>Event = event, Date = deal_date,
                 Symbol = or_else (current_issue_isin st) None,
                 Price = price, Quantity = qty, Currency = ccy, FeeTax = fee,
                 Exchange = exchange, NKD = Some (or_zero nkd),
                 FeeCurrency = None, DoNotAdjustCash = None,
                 Note = or_else (current_issue_text st) None\<rparr>;
          rows' = rows st @ [row]
      in case amount of
           Some a \<Rightarrow>
             if alloc_commission \<and> (fee = None \<or> fee = Some 0)
             then st\<lparr>rows := rows', batch_items := batch_items st @ [(length rows' - 1, \<bar>a\<bar>)]\<rparr>
             else st\<lparr>rows := rows'\<rparr>
         | None \<Rightarrow> st\<lparr>rows := rows'\<rparr>)"

definition trade_row :: "idx_map \<Rightarrow> bool \<Rightarrow> bool \<Rightarrow> cell list \<Rightarrow> scan_state \<Rightarrow> error + scan_state" where
  "trade_row idx alloc_commission locale_comma values st =
     bindE (column_with idx values ''deal_type'' [] (\<lambda>c. lower (norm_text c))) (\<lambda>deal_type.
     bindE (column_with idx values ''deal_date'' None parse_date) (\<lambda>deal_date.
       case (deal_date, map_of TRADE_TYPES_MAP deal_type) of
         (Some date, Some event) \<Rightarrow>
           if date = [] then Inr st
           else
             bindE (column_with idx values ''price'' None (\<lambda>c. parse_decimal c locale_comma)) (\<lambda>price.
             bindE (column_with idx values ''qty'' None (\<lambda>c. parse_decimal c locale_comma)) (\<lambda>qty.
             bindE (column_with idx values ''nkd'' None (\<lambda>c. parse_decimal c locale_comma)) (\<lambda>nkd.
             bindE (column_with idx values ''amount'' None (\<lambda>c. parse_decimal c locale_comma)) (\<lambda>amount.
             bindE (column_with idx values ''amount_ccy'' None
                      (\<lambda>c. normalize_currency (Some (norm_text c)))) (\<lambda>ccy.
             bindE (column_with idx values ''comm_ts'' None (\<lambda>c. parse_decimal c locale_comma)) (\<lambda>fee_ts.
             bindE (column_with idx values ''comm_broker'' None (\<lambda>c. parse_decimal c locale_comma)) (\<lambda>fee_br.
             bindE (column_with idx values ''place'' None (\<lambda>c. Some (norm_text c))) (\<lambda>place.
               Inr (emit_trade alloc_commission event date price qty nkd amount ccy
                      fee_ts fee_br place st)))))))))
       | _ \<Rightarrow> Inr st))"

text \<open>The body of the loop, in the order of its tests: the title of another
  section flushes the batch and leaves the loop; a subtotal row; an issue line; a
  trade.\<close>

definition trades_row ::
  "idx_map \<Rightarrow> isin_index \<Rightarrow> bool \<Rightarrow> bool \<Rightarrow> cell list \<Rightarrow> scan_state \<Rightarrow> error + scan_state ctl" where
  "trades_row idx name_to_isin alloc_commission locale_comma values st =
     (let lt = line_text values in
      if is_section_end lt
        then bindE (flush_batch alloc_commission st) (\<lambda>st'. Inr (Break st'))
      else if re_found TOTAL_FOR_ISSUE_RE lt
        then bindE (subtotal_row idx alloc_commission locale_comma values st)
               (\<lambda>st'. Inr (Continue st'))
      else
        bindE (column_with idx values ''deal_type'' Absent id) (\<lambda>deal_type_cell.
          if norm_text deal_type_cell = []
          then Inr (Continue (issue_row name_to_isin values st))
          else bindE (trade_row idx alloc_commission locale_comma values st)
                 (\<lambda>st'. Inr (Continue st'))))"

text \<open>\<open>while r <= ws.max_row\<close>, over the rows from \<open>header_row + 1\<close>. The result
  is the state the loop is left in.\<close>

fun trades_loop ::
  "idx_map \<Rightarrow> isin_index \<Rightarrow> bool \<Rightarrow> bool \<Rightarrow> cell list list \<Rightarrow> scan_state \<Rightarrow> error + scan_state" where
  "trades_loop idx name_to_isin alloc_commission locale_comma [] st = Inr st"
| "trades_loop idx name_to_isin alloc_commission locale_comma (values # rest) st =
     (case trades_row idx name_to_isin alloc_commission locale_comma values st of
        Inl e \<Rightarrow> Inl e
      | Inr (Break st') \<Rightarrow> Inr st'
      | Inr (Continue st') \<Rightarrow> trades_loop idx name_to_isin alloc_commission locale_comma rest st')"

text \<open>The scan of the sheet up to the exit of the loop.\<close>

definition trades_scan :: "worksheet \<Rightarrow> isin_index \<Rightarrow> bool \<Rightarrow> bool \<Rightarrow> error + scan_state" where
  "trades_scan ws name_to_isin alloc_commission locale_comma =
     (case find_section_title ws SECTION_TRADES_RE of
        None \<Rightarrow> Inl SectionNotFound
      | Some title_row \<Rightarrow>
          bindE (find_header_below ws title_row HEADER_KEYS_TRADES TRADES_NEEDED LOOKAHEAD)
            (\<lambda>(header_row, idx).
               trades_loop idx name_to_isin alloc_commission locale_comma
                 (rows_from ws (Suc header_row)) init_state))"

definition parse_trades_to_target ::
  "worksheet \<Rightarrow> isin_index \<Rightarrow> bool \<Rightarrow> bool \<Rightarrow> error + TargetRow list" where
  "parse_trades_to_target ws name_to_isin alloc_commission locale_comma =
     bindE (trades_scan ws name_to_isin alloc_commission locale_comma) (\<lambda>st. Inr (rows st))"

section \<open>core.parse\_cash\_to\_target\<close>

text \<open>
  The operation types are recognised by keywords in the lower-cased type text:
  \<^item> \<open>spisano po sdelke\<close>, \<open>spisanie po sdelke\<close>: written off for a trade, ignored;
  \<^item> \<open>vvod ds\<close>, \<open>popolnenie\<close>: a deposit, \<open>Cash_In\<close>;
  \<^item> \<open>vyvod ds\<close>, \<open>snyatie\<close>: a withdrawal, \<open>Cash_Out\<close>;
  \<^item> \<open>pogashenie kupona\<close>, or \<open>kupon\<close> in the type or in the comment: a coupon,
    \<open>Dividend\<close>.
\<close>

definition cash_record :: "string \<Rightarrow> ustr \<Rightarrow> ustr option \<Rightarrow> rat \<Rightarrow> ustr option \<Rightarrow> TargetRow" where
  "cash_record event date ccy amount comment =
     \<lparr>Event = event, Date = date, Symbol = ccy, Price = Some 1, Quantity = Some \<bar>amount\<bar>,
      Currency = ccy, FeeTax = Some 0, Exchange = None, NKD = Some 0,
      FeeCurrency = None, DoNotAdjustCash = None, Note = comment\<rparr>"

definition coupon_record ::
  "isin_index \<Rightarrow> bool \<Rightarrow> ustr \<Rightarrow> ustr option \<Rightarrow> rat option \<Rightarrow> ustr option \<Rightarrow> TargetRow" where
  "coupon_record name_to_isin map_coupon_as_price_one date ccy amount comment =
     (let symbol = or_else (isin_from_text comment)
                     (find_isin_by_name (case comment of None \<Rightarrow> [] | Some c \<Rightarrow> c) name_to_isin);
          price = (if map_coupon_as_price_one then Some 1 else None);
          qty = (case amount of Some a \<Rightarrow> Some \<bar>a\<bar> | None \<Rightarrow> None)
      in \<lparr>Event = ''Dividend'', Date = date, Symbol = symbol, Price = price, Quantity = qty,
          Currency = ccy, FeeTax = Some 0, Exchange = None, NKD = Some 0,
          FeeCurrency = None, DoNotAdjustCash = None, Note = comment\<rparr>)"

text \<open>The classification of a row whose date was read, in the order of the
  tests of the loop body; the result is the list of records after the row.
  \<open>if amount:\<close> holds for an amount that is neither \<open>None\<close> nor zero.\<close>

definition cash_classify ::
  "isin_index \<Rightarrow> bool \<Rightarrow> ustr \<Rightarrow> ustr \<Rightarrow> rat option \<Rightarrow> ustr option \<Rightarrow> ustr option \<Rightarrow>
   TargetRow list \<Rightarrow> TargetRow list" where
  "cash_classify name_to_isin map_coupon_as_price_one op_type date amount ccy comment rs =
     (if contains op_type [1089, 1087, 1080, 1089, 1072, 1085, 1086, 32, 1087, 1086, 32, 1089, 1076, 1077, 1083, 1082, 1077] \<comment> \<open>spisano po sdelke\<close> \<or>
         contains op_type [1089, 1087, 1080, 1089, 1072, 1085, 1080, 1077, 32, 1087, 1086, 32, 1089, 1076, 1077, 1083, 1082, 1077] \<comment> \<open>spisanie po sdelke\<close>
        then rs
      else if contains op_type [1074, 1074, 1086, 1076, 32, 1076, 1089] \<comment> \<open>vvod ds\<close> \<or>
              contains op_type [1087, 1086, 1087, 1086, 1083, 1085, 1077, 1085, 1080, 1077] \<comment> \<open>popolnenie\<close>
        then (case amount of
                Some a \<Rightarrow> if a \<noteq> 0 then rs @ [cash_record ''Cash_In'' date ccy a comment] else rs
              | None \<Rightarrow> rs)
      else if contains op_type [1074, 1099, 1074, 1086, 1076, 32, 1076, 1089] \<comment> \<open>vyvod ds\<close> \<or>
              contains op_type [1089, 1085, 1103, 1090, 1080, 1077] \<comment> \<open>snyatie\<close>
        then (case amount of
                Some a \<Rightarrow> if a \<noteq> 0 then rs @ [cash_record ''Cash_Out'' date ccy a comment] else rs
              | None \<Rightarrow> rs)
      else if contains op_type [1087, 1086, 1075, 1072, 1096, 1077, 1085, 1080, 1077, 32, 1082, 1091, 1087, 1086, 1085, 1072] \<comment> \<open>pogashenie kupona\<close> \<or>
              contains op_type [1082, 1091, 1087, 1086, 1085] \<comment> \<open>kupon\<close> \<or>
              contains (lower (case comment of None \<Rightarrow> [] | Some c \<Rightarrow> c))
                [1082, 1091, 1087, 1086, 1085] \<comment> \<open>kupon\<close>
        then rs @ [coupon_record name_to_isin map_coupon_as_price_one date ccy amount comment]
      else rs)"

text \<open>The body of the loop: a row with no true cell leaves the loop; a row
  without a date is passed over.\<close>

definition cash_row ::
  "idx_map \<Rightarrow> isin_index \<Rightarrow> bool \<Rightarrow> bool \<Rightarrow> cell list \<Rightarrow> TargetRow list \<Rightarrow>
   error + TargetRow list ctl" where
  "cash_row col name_to_isin locale_comma map_coupon_as_price_one values rs =
     (if \<not> list_ex truthy values then Inr (Break rs)
      else
        bindE (column_with col values ''type'' [] (\<lambda>c. lower (norm_text c))) (\<lambda>op_type.
        bindE (column_with col values ''date'' None parse_date) (\<lambda>date.
        bindE (column_with col values ''amount'' None (\<lambda>c. parse_decimal c locale_comma)) (\<lambda>amount.
        bindE (column_with col values ''ccy'' None
                 (\<lambda>c. normalize_currency (Some (norm_text c)))) (\<lambda>ccy.
        bindE (column_with col values ''comment'' None (\<lambda>c. Some (norm_text c))) (\<lambda>comment.
          case date of
            None \<Rightarrow> Inr (Continue rs)
          | Some d \<Rightarrow>
              if d = [] then Inr (Continue rs)
              else Inr (Continue (cash_classify name_to_isin map_coupon_as_price_one
                                    op_type d amount ccy comment rs))))))))"

fun cash_loop ::
  "idx_map \<Rightarrow> isin_index \<Rightarrow> bool \<Rightarrow> bool \<Rightarrow> cell list list \<Rightarrow> TargetRow list \<Rightarrow>
   error + TargetRow list" where
  "cash_loop col name_to_isin locale_comma map_coupon_as_price_one [] rs = Inr rs"
| "cash_loop col name_to_isin locale_comma map_coupon_as_price_one (values # rest) rs =
     (case cash_row col name_to_isin locale_comma map_coupon_as_price_one values rs of
        Inl e \<Rightarrow> Inl e
      | Inr (Break rs') \<Rightarrow> Inr rs'
      | Inr (Continue rs') \<Rightarrow>
          cash_loop col name_to_isin locale_comma map_coupon_as_price_one rest rs')"

definition parse_cash_to_target ::
  "worksheet \<Rightarrow> isin_index \<Rightarrow> bool \<Rightarrow> bool \<Rightarrow> error + TargetRow list" where
  "parse_cash_to_target ws name_to_isin locale_comma map_coupon_as_price_one =
     (case find_section_title ws SECTION_CASH_RE of
        None \<Rightarrow> Inr []
      | Some title_row \<Rightarrow>
          bindE (find_header_below ws title_row HEADER_KEYS_CASH CASH_NEEDED LOOKAHEAD)
            (\<lambda>(header_row, col).
               cash_loop col name_to_isin locale_comma map_coupon_as_price_one
                 (rows_from ws (Suc header_row)) []))"

section \<open>Invariants and demonstration inputs\<close>

text \<open>
  The batch of a state is well formed when its indices are distinct and point into
  the rows, and its amounts, being absolute values, are not negative.
\<close>

definition batch_ok :: "scan_state \<Rightarrow> bool" where
  "batch_ok st \<longleftrightarrow>
     distinct (map fst (batch_items st)) \<and>
     list_all (\<lambda>p. fst p < length (rows st) \<and> 0 \<le> snd p) (batch_items st)"

text \<open>
  The invariant of the scan at the head of the loop: the batch is well formed, no
  fee is accumulated (a subtotal row adds its fee and flushes at once), and a batch
  has candidates only when allocation is switched on.
\<close>

definition scan_inv :: "bool \<Rightarrow> scan_state \<Rightarrow> bool" where
  "scan_inv alloc_commission st \<longleftrightarrow>
     batch_ok st \<and> batch_total_fee st = 0 \<and> (batch_items st = [] \<or> alloc_commission)"

text \<open>
  Rows of a small statement: the title of the trades section, a header with the
  required columns and the commission of the trading system, the header line of an
  issue, two purchases with amounts 1000 and 3000 and no commission of their own, a
  subtotal row with a commission of 40, and the title of the cash section.
\<close>

definition title_cells :: "cell list" where
  "title_cells = [Text [1057, 1076, 1077, 1083, 1082, 1080, 32, 1089, 32, 1094, 1077, 1085, 1085, 1099, 1084, 1080, 32, 1073, 1091, 1084, 1072, 1075, 1072, 1084, 1080] \<comment> \<open>Sdelki s cennymi bumagami\<close>,
                  Absent, Absent, Absent, Absent, Absent, Absent]"

definition header_cells :: "cell list" where
  "header_cells =
     [Text [1044, 1072, 1090, 1072, 32, 1089, 1076, 1077, 1083, 1082, 1080] \<comment> \<open>Data sdelki\<close>,
      Text [1042, 1080, 1076, 32, 1089, 1076, 1077, 1083, 1082, 1080] \<comment> \<open>Vid sdelki\<close>,
      Text [1062, 1077, 1085, 1072, 32, 1086, 1076, 1085, 1086, 1081, 32, 1062, 1041] \<comment> \<open>Cena odnoj CB\<close>,
      Text [1050, 1086, 1083, 1080, 1095, 1077, 1089, 1090, 1074, 1086, 32, 1062, 1041] \<comment> \<open>Kolichestvo CB\<close>,
      Text [1057, 1091, 1084, 1084, 1072, 32, 1089, 1076, 1077, 1083, 1082, 1080] \<comment> \<open>Summa sdelki\<close>,
      Text [1042, 1072, 1083, 1102, 1090, 1072, 32, 1089, 1091, 1084, 1084, 1099] \<comment> \<open>Valyuta summy\<close>,
      Text [1050, 1086, 1084, 1080, 1089, 1089, 1080, 1103, 32, 1058, 1057] \<comment> \<open>Komissiya TS\<close>]"

definition issue_cells :: "cell list" where
  "issue_cells = [Text (ascii ''Bond ABC''), Absent, Absent, Absent, Absent, Absent, Absent]"

definition buy_cells :: "string \<Rightarrow> int \<Rightarrow> int \<Rightarrow> cell list" where
  "buy_cells day qty amount =
     [Text (ascii day),
      Text [1055, 1086, 1082, 1091, 1087, 1082, 1072] \<comment> \<open>Pokupka\<close>,
      IntV 100, IntV qty, IntV amount, Text (ascii ''RUB''), Absent]"

definition subtotal_cells :: "cell list" where
  "subtotal_cells = [Text [1048, 1090, 1086, 1075, 1086, 32, 1087, 1086, 32, 1074, 1099, 1087, 1091, 1089, 1082, 1091] \<comment> \<open>Itogo po vypusku\<close>,
                     Absent, Absent, Absent, Absent, Absent, IntV 40]"

definition cash_title_cells :: "cell list" where
  "cash_title_cells =
     [Text [1044, 1074, 1080, 1078, 1077, 1085, 1080, 1077, 32, 1076, 1077, 1085, 1077, 1078, 1085, 1099, 1093, 32, 1089, 1088, 1077, 1076, 1089, 1090, 1074, 32, 1079, 1072, 32, 1086, 1090, 1095, 1077, 1090, 1085, 1099, 1081, 32, 1087, 1077, 1088, 1080, 1086, 1076] \<comment> \<open>Dvizhenie denezhnyh sredstv za otchetnyj period\<close>,
      Absent, Absent, Absent, Absent, Absent, Absent]"

definition trades_idx :: idx_map where
  "trades_idx = [(''deal_date'', 0), (''deal_type'', 1), (''price'', 2), (''qty'', 3),
                 (''amount'', 4), (''amount_ccy'', 5), (''comm_ts'', 6)]"

definition scenario_grid :: worksheet where
  "scenario_grid =
     [title_cells, header_cells, issue_cells,
      buy_cells ''15.01.2024'' 10 1000, buy_cells ''16.01.2024'' 30 3000, subtotal_cells]"

definition buy_record :: "string \<Rightarrow> rat \<Rightarrow> rat option \<Rightarrow> TargetRow" where
  "buy_record day qty fee =
     \<lparr>Event = ''Buy'', Date = ascii day, Symbol = None, Price = Some 100, Quantity = Some qty,
      Currency = Some (ascii ''RUB''), FeeTax = fee, Exchange = None, NKD = Some 0,
      FeeCurrency = None, DoNotAdjustCash = None, Note = Some (ascii ''Bond ABC'')\<rparr>"

text \<open>A statement that ends after a purchase, with no subtotal row and no
  further section.\<close>

definition open_grid :: worksheet where
  "open_grid = [title_cells, header_cells, issue_cells, buy_cells ''15.01.2024'' 10 1000]"

text \<open>States of the scan with two candidates, the second with a fee of 2
  already.\<close>

definition batch_state :: "rat \<Rightarrow> rat \<Rightarrow> rat \<Rightarrow> scan_state" where
  "batch_state a b fee =
     \<lparr>rows = [buy_record ''2024-01-15'' 10 None, buy_record ''2024-01-16'' 30 (Some 2)],
      batch_items = [(0, a), (1, b)], batch_total_fee = fee,
      current_issue_text = None, current_issue_isin = None\<rparr>"

text \<open>
  The index of the leftmost element of a list with a property, and the property of
  a header cell that the specification gives for a field: the cell's text,
  normalised and lower-cased, is not empty and contains one of the field's synonyms.
\<close>

fun leftmost :: "('a \<Rightarrow> bool) \<Rightarrow> 'a list \<Rightarrow> nat option" where
  "leftmost P [] = None"
| "leftmost P (x # xs) = (if P x then Some 0 else map_option Suc (leftmost P xs))"

definition field_in_cell :: "header_keys \<Rightarrow> string \<Rightarrow> cell \<Rightarrow> bool" where
  "field_in_cell mapping key c \<longleftrightarrow>
     lower (norm_text c) \<noteq> [] \<and>
     list_ex (\<lambda>(k, variants). k = key \<and> list_ex (\<lambda>v. contains (lower (norm_text c)) (lower v)) variants)
       mapping"

text \<open>The test of a header row: the fields resolved in row \<open>i\<close> include every
  required one.\<close>

definition is_header :: "worksheet \<Rightarrow> header_keys \<Rightarrow> string list \<Rightarrow> nat \<Rightarrow> bool" where
  "is_header ws mapping needed i \<longleftrightarrow>
     set needed \<subseteq> fst ` set (match_header_indices (row_values ws i) mapping)"

text \<open>An index with one entry, for the bank of the specification's example
  (\<open>Sberbank\<close>), and the text of an issue that names it (\<open>Sberbank ao\<close>).\<close>

definition sber_index :: isin_index where
  "sber_index = [(norm_key [1057, 1073, 1077, 1088, 1073, 1072, 1085, 1082] \<comment> \<open>Sberbank\<close>, ascii ''RU0009029540'')]"

definition sber_text :: ustr where
  "sber_text = [1057, 1073, 1077, 1088, 1073, 1072, 1085, 1082, 32, 1072, 1086] \<comment> \<open>Sberbank ao\<close>"

text \<open>
  Rows of a cash-movement table: the header, a deposit, a row whose only content is
  the number 0, and a coupon row without an amount.
\<close>

definition cash_header_cells :: "cell list" where
  "cash_header_cells =
     [Text [1044, 1072, 1090, 1072] \<comment> \<open>Data\<close>,
      Text [1058, 1080, 1087, 32, 1086, 1087, 1077, 1088, 1072, 1094, 1080, 1080] \<comment> \<open>Tip operacii\<close>,
      Text [1057, 1091, 1084, 1084, 1072] \<comment> \<open>Summa\<close>,
      Text [1042, 1072, 1083, 1102, 1090, 1072] \<comment> \<open>Valyuta\<close>,
      Text [1050, 1086, 1084, 1084, 1077, 1085, 1090, 1072, 1088, 1080, 1081] \<comment> \<open>Kommentarij\<close>]"

definition cash_idx :: idx_map where
  "cash_idx = [(''date'', 0), (''type'', 1), (''amount'', 2), (''ccy'', 3), (''comment'', 4)]"

definition deposit_cells :: "string \<Rightarrow> int \<Rightarrow> cell list" where
  "deposit_cells day amount =
     [Text (ascii day),
      Text [1042, 1074, 1086, 1076, 32, 1044, 1057] \<comment> \<open>Vvod DS\<close>,
      IntV amount, Text (ascii ''USD''), Absent]"

definition zero_cells :: "cell list" where
  "zero_cells = [Absent, Absent, IntV 0, Absent, Absent]"

definition coupon_cells :: "cell list" where
  "coupon_cells =
     [Text (ascii ''12.01.2024''),
      Text [1055, 1086, 1075, 1072, 1096, 1077, 1085, 1080, 1077, 32, 1082, 1091, 1087, 1086, 1085, 1072] \<comment> \<open>Pogashenie kupona\<close>,
      Absent, Text (ascii ''RUB''), Text (ascii ''RU000A0JWM18'')]"

definition deposit_record :: "string \<Rightarrow> rat \<Rightarrow> TargetRow" where
  "deposit_record day amount =
     cash_record ''Cash_In'' (ascii day) (Some (ascii ''USD'')) amount (Some [])"

definition cash_grid :: worksheet where
  "cash_grid =
     [take 5 cash_title_cells, cash_header_cells, deposit_cells ''10.01.2024'' 500, zero_cells,
      deposit_cells ''11.01.2024'' 700, coupon_cells]"

definition coupon_grid :: worksheet where
  "coupon_grid =
     [take 5 cash_title_cells, cash_header_cells, deposit_cells ''10.01.2024'' 0, coupon_cells]"

text \<open>What the cash scan guarantees of a record: it is a \<open>Dividend\<close>, or its
  quantity is the absolute value of a non-zero amount, with price 1 and fee 0.\<close>

definition cash_record_ok :: "TargetRow \<Rightarrow> bool" where
  "cash_record_ok r \<longleftrightarrow>
     Event r = ''Dividend'' \<or>
     ((Event r = ''Cash_In'' \<or> Event r = ''Cash_Out'') \<and>
      (\<exists>a. a \<noteq> 0 \<and> Quantity r = Some \<bar>a\<bar>) \<and> Price r = Some 1 \<and> FeeTax r = Some 0)"

text \<open>The rows that reach the coupon branch of the cash scan: the type text has
  none of the keywords of the earlier branches, and the type text or the comment has
  a coupon keyword.\<close>

definition coupon_row :: "ustr \<Rightarrow> ustr option \<Rightarrow> bool" where
  "coupon_row op_type comment \<longleftrightarrow>
     \<not> list_ex (contains op_type)
         [[1089, 1087, 1080, 1089, 1072, 1085, 1086, 32, 1087, 1086, 32, 1089, 1076, 1077, 1083, 1082, 1077] \<comment> \<open>spisano po sdelke\<close>,
          [1089, 1087, 1080, 1089, 1072, 1085, 1080, 1077, 32, 1087, 1086, 32, 1089, 1076, 1077, 1083, 1082, 1077] \<comment> \<open>spisanie po sdelke\<close>,
          [1074, 1074, 1086, 1076, 32, 1076, 1089] \<comment> \<open>vvod ds\<close>,
          [1087, 1086, 1087, 1086, 1083, 1085, 1077, 1085, 1080, 1077] \<comment> \<open>popolnenie\<close>,
          [1074, 1099, 1074, 1086, 1076, 32, 1076, 1089] \<comment> \<open>vyvod ds\<close>,
          [1089, 1085, 1103, 1090, 1080, 1077] \<comment> \<open>snyatie\<close>] \<and>
     (list_ex (contains op_type)
         [[1087, 1086, 1075, 1072, 1096, 1077, 1085, 1080, 1077, 32, 1082, 1091, 1087, 1086, 1085, 1072] \<comment> \<open>pogashenie kupona\<close>,
          [1082, 1091, 1087, 1086, 1085] \<comment> \<open>kupon\<close>] \<or>
      contains (lower (case comment of None \<Rightarrow> [] | Some c \<Rightarrow> c))
        [1082, 1091, 1087, 1086, 1085] \<comment> \<open>kupon\<close>)"

section \<open>Examples of the specification\<close>

lemma parse_decimal_locale_comma_example:
  "parse_decimal (Text [49, 32, 50, 51, 52, 44, 53, 54]) True = Some (123456 / 100)"
  by code_simp

lemma parse_decimal_dash: "parse_decimal (Text [45]) b = None"
  by (cases b) code_simp+

lemma parse_decimal_none: "parse_decimal Absent b = None"
  by (simp add: parse_decimal_def)

lemma parse_date_examples:
  "parse_date (Text (ascii ''31.12.2023'')) = Some (ascii ''2023-12-31'')"
  "parse_date (IntV 45000) = Some (ascii ''2023-03-15'')"
  "parse_date (Text (ascii ''45000.75'')) = Some (ascii ''2023-03-15'')"
  "parse_date (Text []) = None"
  "parse_date (Text (ascii ''31.02.2023'')) = None"
  "parse_date (Text (ascii ''2024-02-29'')) = Some (ascii ''2024-02-29'')"
  by code_simp+

section \<open>Lists and text\<close>

lemma leftmost_Some_iff:
  "leftmost P xs = Some i \<longleftrightarrow> i < length xs \<and> P (xs ! i) \<and> (\<forall>k < i. \<not> P (xs ! k))"
proof (induction xs arbitrary: i)
  case Nil
  then show ?case by simp
next
  case (Cons x xs)
  show ?case
  proof (cases "P x")
    case True
    then show ?thesis by (cases i) auto
  next
    case False
    show ?thesis
    proof (cases i)
      case 0
      with False show ?thesis by simp
    next
      case (Suc j)
      have "(\<forall>k < Suc j. \<not> P ((x # xs) ! k)) \<longleftrightarrow> (\<forall>k < j. \<not> P (xs ! k))"
        using False by (auto simp: less_Suc_eq_0_disj)
      with False Suc Cons.IH [of j] show ?thesis by auto
    qed
  qed
qed

lemma leftmost_None_iff: "leftmost P xs = None \<longleftrightarrow> list_all (\<lambda>x. \<not> P x) xs"
  by (induction xs) auto

lemma contains_iff: "contains s p \<longleftrightarrow> (\<exists>a b. s = a @ p @ b)"
proof (induction s)
  case Nil
  then show ?case by auto
next
  case (Cons x s)
  show ?case
  proof
    assume "contains (x # s) p"
    then consider "prefix p (x # s)" | "contains s p" by auto
    then show "\<exists>a b. x # s = a @ p @ b"
    proof cases
      case 1
      then obtain b where "x # s = p @ b" by (auto simp: prefix_def)
      then have "x # s = [] @ p @ b" by simp
      then show ?thesis by blast
    next
      case 2
      with Cons.IH obtain a b where "s = a @ p @ b" by blast
      then have "x # s = (x # a) @ p @ b" by simp
      then show ?thesis by blast
    qed
  next
    assume "\<exists>a b. x # s = a @ p @ b"
    then obtain a b where ab: "x # s = a @ p @ b" by blast
    show "contains (x # s) p"
    proof (cases a)
      case Nil
      with ab have "prefix p (x # s)" by (simp add: prefix_def)
      then show ?thesis by simp
    next
      case (Cons y a')
      with ab have "s = a' @ p @ b" by simp
      with Cons.IH have "contains s p" by blast
      then show ?thesis by simp
    qed
  qed
qed

lemma first_name_in_leftmost:
  "first_name_in key idx =
     map_option (\<lambda>i. snd (idx ! i)) (leftmost (\<lambda>e. fst e \<noteq> [] \<and> contains key (fst e)) idx)"
proof (induction idx)
  case Nil
  then show ?case by simp
next
  case (Cons e idx)
  obtain nk isin where e: "e = (nk, isin)" by (cases e)
  show ?case
    using Cons.IH by (simp add: e option.map_comp comp_def)
qed

lemma norm_key_empty: "norm_key [] = []"
  by (simp add: norm_key_def lower_def replace1_def)

lemma dict_set_keys: "set (map fst (dict_set m k v)) = insert k (set (map fst m))"
proof (induction m)
  case Nil
  then show ?case by simp
next
  case (Cons p m)
  obtain k' v' where p: "p = (k', v')" by (cases p)
  show ?case
  proof (cases "k' = k")
    case True
    then show ?thesis by (simp add: p)
  next
    case False
    with Cons show ?thesis by (simp add: p insert_commute)
  qed
qed

lemma dict_set_distinct: "distinct (map fst m) \<Longrightarrow> distinct (map fst (dict_set m k v))"
proof (induction m)
  case Nil
  then show ?case by simp
next
  case (Cons p m)
  obtain k' v' where p: "p = (k', v')" by (cases p)
  from Cons dict_set_keys [of m k v] show ?case by (auto simp: p)
qed

lemma portfolio_loop_distinct:
  "distinct (map fst m) \<Longrightarrow> distinct (map fst (portfolio_loop ws name_col isin_col rs m))"
  by (induction rs arbitrary: m)
     (auto simp: portfolio_row_def Let_def dict_set_distinct split: ctl.splits if_splits)

lemma parse_portfolio_isin_map_distinct:
  "parse_portfolio_isin_map ws = Inr m \<Longrightarrow> distinct (map fst m)"
  unfolding parse_portfolio_isin_map_def lookup_def
  by (auto simp: bindE_def portfolio_loop_distinct split: option.splits sum.splits)

section \<open>Exceptions\<close>

lemma bindE_Inr_iff: "bindE m f = Inr y \<longleftrightarrow> (\<exists>x. m = Inr x \<and> f x = Inr y)"
  by (cases m) (simp_all add: bindE_def)

lemma bindE_InrE:
  assumes "bindE m f = Inr y"
  obtains x where "m = Inr x" "f x = Inr y"
  using assms by (cases m) (simp_all add: bindE_def)

lemma bindE_Inl_iff: "bindE m f = Inl e \<longleftrightarrow> m = Inl e \<or> (\<exists>x. m = Inr x \<and> f x = Inl e)"
  by (cases m) (simp_all add: bindE_def)

lemma bindE_Inr [simp]: "bindE (Inr x) f = f x"
  by (simp add: bindE_def)

lemma bindE_Inl [simp]: "bindE (Inl e) f = Inl e"
  by (simp add: bindE_def)

section \<open>The commission batch\<close>

lemma allocate_result:
  assumes "tot \<noteq> 0" "distinct (map fst items)" "list_all (\<lambda>p. fst p < length rs) items"
  shows "\<exists>rs'. allocate fee tot items rs = Inr rs' \<and> length rs' = length rs \<and>
           (\<forall>i < length rs. rs' ! i =
              (case map_of items i of None \<Rightarrow> rs ! i
               | Some a \<Rightarrow> add_fee (fee * (a / tot)) (rs ! i)))"
  using assms
proof (induction items arbitrary: rs)
  case Nil
  then show ?case by simp
next
  case (Cons p items)
  obtain j a where p: "p = (j, a)" by (cases p)
  let ?rs1 = "rs[j := add_fee (fee * (a / tot)) (rs ! j)]"
  from Cons.prems p have j: "j < length rs" and nj: "j \<notin> fst ` set items"
    and d: "distinct (map fst items)" and r: "list_all (\<lambda>p. fst p < length ?rs1) items"
    by (auto simp: list_all_iff)
  from Cons.IH [OF Cons.prems(1) d r] obtain rs' where
    rs': "allocate fee tot items ?rs1 = Inr rs'" "length rs' = length rs"
      "\<forall>i < length rs. rs' ! i =
         (case map_of items i of None \<Rightarrow> ?rs1 ! i | Some a \<Rightarrow> add_fee (fee * (a / tot)) (?rs1 ! i))"
    by auto
  have step: "allocate fee tot (p # items) rs = Inr rs'"
    using Cons.prems(1) j rs'(1) by (simp add: p bindE_def py_div_def)
  have "rs' ! i = (case map_of (p # items) i of None \<Rightarrow> rs ! i
                   | Some a \<Rightarrow> add_fee (fee * (a / tot)) (rs ! i))" if i: "i < length rs" for i
  proof (cases "i = j")
    case True
    with nj have "map_of items i = None" by (simp add: map_of_eq_None_iff)
    with rs'(3) i True j show ?thesis by (simp add: p)
  next
    case False
    with rs'(3) i show ?thesis by (simp add: p split: option.splits)
  qed
  with step rs'(2) show ?case by blast
qed

lemma allocate_no_zero_division:
  "tot \<noteq> 0 \<Longrightarrow> allocate fee tot items rs \<noteq> Inl ZeroDivisionError"
  by (induction items arbitrary: rs) (auto simp: bindE_def py_div_def split: if_splits)

lemma batch_total_nonzero: "batch_total items \<noteq> 0"
  by (simp add: batch_total_def Let_def)




lemma flush_batch_no_zero_division: "flush_batch a st \<noteq> Inl ZeroDivisionError"
  using allocate_no_zero_division [of "batch_total (batch_items st)" "batch_total_fee st"
      "batch_items st" "rows st"] batch_total_nonzero [of "batch_items st"]
  by (auto simp: flush_batch_def bindE_Inl_iff)

section \<open>The invariant of the trades scan\<close>

lemma scan_inv_batch:
  "scan_inv a st \<Longrightarrow>
   distinct (map fst (batch_items st)) \<and>
   list_all (\<lambda>p. fst p < length (rows st)) (batch_items st) \<and>
   (batch_items st = [] \<or> a)"
  by (auto simp: scan_inv_def batch_ok_def list_all_iff)

lemma flush_batch_clears:
  "flush_batch a st = Inr st' \<Longrightarrow> batch_items st' = [] \<and> batch_total_fee st' = 0"
  by (auto simp: flush_batch_def bindE_Inr_iff split: if_splits)

lemma flush_batch_inv: "flush_batch a st = Inr st' \<Longrightarrow> scan_inv a st'"
  by (drule flush_batch_clears) (simp add: scan_inv_def batch_ok_def)

lemma flush_batch_zero_fee:
  "batch_total_fee st = 0 \<Longrightarrow> flush_batch a st = Inr (st\<lparr>batch_items := [], batch_total_fee := 0\<rparr>)"
  by (simp add: flush_batch_def)

lemma subtotal_row_inv: "subtotal_row idx a l values st = Inr st' \<Longrightarrow> scan_inv a st'"
  by (auto simp: subtotal_row_def bindE_Inr_iff Let_def dest: flush_batch_inv)

lemma issue_row_inv: "scan_inv a st \<Longrightarrow> scan_inv a (issue_row n values st)"
  by (simp add: issue_row_def Let_def scan_inv_def batch_ok_def)

lemma emit_trade_inv:
  assumes "scan_inv a st"
  shows "scan_inv a (emit_trade a event date price qty nkd amount ccy fts fbr place st)"
proof -
  from assms have d: "distinct (map fst (batch_items st))"
    and r: "list_all (\<lambda>p. fst p < length (rows st) \<and> 0 \<le> snd p) (batch_items st)"
    and f: "batch_total_fee st = 0" and al: "batch_items st = [] \<or> a"
    by (simp_all add: scan_inv_def batch_ok_def)
  from r have notin: "length (rows st) \<notin> fst ` set (batch_items st)"
    by (auto simp: list_all_iff)
  from r have r': "list_all (\<lambda>p. fst p < Suc (length (rows st)) \<and> 0 \<le> snd p) (batch_items st)"
    by (auto simp: list_all_iff)
  show ?thesis
    using d f al notin r'
    by (auto simp: emit_trade_def Let_def scan_inv_def batch_ok_def split: option.splits)
qed

lemma trade_row_cases:
  assumes "trade_row idx a l values st = Inr st'" and "P st"
    and "\<And>event date price qty nkd amount ccy fts fbr place.
           P (emit_trade a event date price qty nkd amount ccy fts fbr place st)"
  shows "P st'"
  using assms unfolding trade_row_def
  by (auto elim!: bindE_InrE split: option.splits if_splits)

lemma trade_row_inv: "trade_row idx a l values st = Inr st' \<Longrightarrow> scan_inv a st \<Longrightarrow> scan_inv a st'"
  by (erule trade_row_cases) (simp_all add: emit_trade_inv)

lemma trades_row_inv:
  assumes "scan_inv a st" "trades_row idx n a l values st = Inr c"
  shows "scan_inv a (case c of Break s \<Rightarrow> s | Continue s \<Rightarrow> s)"
  using assms unfolding trades_row_def Let_def
  by (auto elim!: bindE_InrE split: if_splits simp: issue_row_inv trade_row_inv
        dest: flush_batch_inv subtotal_row_inv)

lemma trades_loop_inv:
  "scan_inv a st \<Longrightarrow> trades_loop idx n a l rs st = Inr st' \<Longrightarrow> scan_inv a st'"
proof (induction rs arbitrary: st)
  case Nil
  then show ?case by simp
next
  case (Cons v rs)
  show ?case
  proof (cases "trades_row idx n a l v st")
    case (Inl e)
    with Cons.prems show ?thesis by simp
  next
    case (Inr c)
    from trades_row_inv [OF Cons.prems(1) Inr] Inr Cons show ?thesis
      by (cases c) auto
  qed
qed

lemma init_state_inv: "scan_inv a init_state"
  by (simp add: scan_inv_def batch_ok_def init_state_def)

lemma trades_scan_inv: "trades_scan ws n a l = Inr st \<Longrightarrow> scan_inv a st"
  unfolding trades_scan_def
  by (auto simp: bindE_Inr_iff split: option.splits dest: trades_loop_inv [OF init_state_inv])

lemma trades_row_not_break:
  "\<not> is_section_end (line_text values) \<Longrightarrow> trades_row idx n a l values st \<noteq> Inr (Break st')"
  unfolding trades_row_def Let_def
  by (auto elim!: bindE_InrE split: if_splits)

lemma trades_row_break:
  "is_section_end (line_text values) \<Longrightarrow>
   trades_row idx n a l values st = bindE (flush_batch a st) (\<lambda>s. Inr (Break s))"
  by (simp add: trades_row_def)

lemma trades_loop_append:
  "list_all (\<lambda>v. \<not> is_section_end (line_text v)) pre \<Longrightarrow>
   trades_loop idx n a l (pre @ post) st =
     bindE (trades_loop idx n a l pre st) (trades_loop idx n a l post)"
proof (induction pre arbitrary: st)
  case Nil
  then show ?case by simp
next
  case (Cons v pre)
  show ?case
  proof (cases "trades_row idx n a l v st")
    case (Inl e)
    then show ?thesis by simp
  next
    case (Inr c)
    show ?thesis
    proof (cases c)
      case (Break s)
      with Inr Cons.prems trades_row_not_break [of v idx n a l st s] show ?thesis by simp
    next
      case (Continue s)
      with Inr Cons show ?thesis by simp
    qed
  qed
qed

lemma trades_loop_at_section_end:
  "is_section_end (line_text t) \<Longrightarrow>
   trades_loop idx n a l (t # post) st = flush_batch a st"
  by (cases "flush_batch a st") (simp_all add: trades_row_break)

section \<open>Section titles and table headers\<close>

lemma setdefault_map_of:
  "map_of (setdefault m k v) k' =
     (case map_of m k' of Some x \<Rightarrow> Some x | None \<Rightarrow> if k' = k then Some v else None)"
  by (auto simp: setdefault_def map_add_def split: option.splits)

lemma mh_variants_map_of:
  "map_of (mh_variants text key j vs m) k' =
     (case map_of m k' of Some x \<Rightarrow> Some x
      | None \<Rightarrow> if k' = key \<and> list_ex (\<lambda>v. contains text (lower v)) vs then Some j else None)"
  by (induction vs arbitrary: m) (auto simp: setdefault_map_of split: option.splits if_splits)

lemma mh_keys_map_of:
  "map_of (mh_keys text j mapping m) k' =
     (case map_of m k' of Some x \<Rightarrow> Some x
      | None \<Rightarrow>
          if list_ex (\<lambda>(k, variants). k = k' \<and> list_ex (\<lambda>v. contains text (lower v)) variants) mapping
          then Some j else None)"
  by (induction mapping arbitrary: m) (auto simp: mh_variants_map_of split: option.splits if_splits)

lemma map_option_Suc_add [simp]:
  "map_option ((+) (Suc j)) x = map_option (\<lambda>i. Suc (j + i)) x"
  by (cases x) simp_all

lemma mh_cells_leftmost:
  assumes P: "\<And>c. P c \<longleftrightarrow> lower (norm_text c) \<noteq> [] \<and>
            list_ex (\<lambda>(k, variants). k = k' \<and>
              list_ex (\<lambda>v. contains (lower (norm_text c)) (lower v)) variants) mapping"
  shows "map_of (mh_cells mapping j cells m) k' =
     (case map_of m k' of Some x \<Rightarrow> Some x
      | None \<Rightarrow> map_option (\<lambda>i. j + i) (leftmost P cells))"
proof (induction cells arbitrary: j m)
  case Nil
  then show ?case by (simp split: option.splits)
next
  case (Cons c cells)
  show ?case
    using P [of c]
    by (cases "P c")
       (auto simp: Cons.IH Let_def mh_keys_map_of option.map_comp comp_def split: option.splits)
qed

lemma match_header_indices_leftmost:
  "map_of (match_header_indices values mapping) key = leftmost (field_in_cell mapping key) values"
  using mh_cells_leftmost [of "field_in_cell mapping key" key mapping 0 "values" "[]"]
  by (cases "leftmost (field_in_cell mapping key) values") (simp_all add: match_header_indices_def field_in_cell_def)

lemma mh_cells_keeps:
  "map_of m key = Some x \<Longrightarrow> map_of (mh_cells mapping j cells m) key = Some x"
  using mh_cells_leftmost [of "field_in_cell mapping key" key mapping j cells m]
  by (simp add: field_in_cell_def)

lemma mh_cells_append:
  "mh_cells mapping j (xs @ ys) m = mh_cells mapping (j + length xs) ys (mh_cells mapping j xs m)"
  by (induction xs arbitrary: j m) (simp_all add: Let_def)

lemma has_all_iff: "has_all needed m \<longleftrightarrow> set needed \<subseteq> fst ` set m"
  by (auto simp: has_all_def list_all_iff map_of_eq_None_iff)

lemma header_scan_upt:
  "header_scan ws mapping needed [a ..< b] = Inr (i, idx) \<longleftrightarrow>
     a \<le> i \<and> i < b \<and> is_header ws mapping needed i \<and>
     (\<forall>k. a \<le> k \<and> k < i \<longrightarrow> \<not> is_header ws mapping needed k) \<and>
     idx = match_header_indices (row_values ws i) mapping"
proof (induction "b - a" arbitrary: a)
  case 0
  then show ?case by simp
next
  case (Suc d)
  then have ab: "a < b" and d: "d = b - Suc a" by simp_all
  from ab have upt: "[a ..< b] = a # [Suc a ..< b]" by (simp add: upt_conv_Cons)
  show ?case
  proof (cases "is_header ws mapping needed a")
    case True
    have "(\<forall>k. a \<le> k \<and> k < i \<longrightarrow> \<not> is_header ws mapping needed k) \<longleftrightarrow> i \<le> a"
      using True by (auto simp: not_less [symmetric])
    with True ab show ?thesis
      by (auto simp: upt Let_def has_all_iff is_header_def [symmetric])
  next
    case False
    have "(\<forall>k. a \<le> k \<and> k < i \<longrightarrow> \<not> is_header ws mapping needed k) \<longleftrightarrow>
          (\<forall>k. Suc a \<le> k \<and> k < i \<longrightarrow> \<not> is_header ws mapping needed k)"
      using False by (auto simp: Suc_le_eq order.strict_iff_order)
    moreover have "a \<le> i \<and> is_header ws mapping needed i \<longleftrightarrow> Suc a \<le> i \<and> is_header ws mapping needed i"
      using False by (auto simp: Suc_le_eq order.strict_iff_order)
    ultimately show ?thesis
      using False Suc.hyps(1) [OF d, of ] 
      by (simp add: upt Let_def has_all_iff is_header_def [symmetric]) blast
  qed
qed

lemma header_scan_Inl:
  "header_scan ws mapping needed is = Inl e \<longleftrightarrow>
     e = HeaderNotFound \<and> list_all (\<lambda>k. \<not> is_header ws mapping needed k) is"
  by (induction "is") (auto simp: Let_def has_all_iff is_header_def)

lemma first_title_row_None:
  "first_title_row pattern i rs = None \<longleftrightarrow> list_all (\<lambda>r. \<not> re_found pattern (line_text r)) rs"
  by (induction rs arbitrary: i) auto

lemma first_title_row_leftmost:
  "first_title_row pattern i rs =
     map_option (\<lambda>k. i + k) (leftmost (\<lambda>r. re_found pattern (line_text r)) rs)"
  by (induction rs arbitrary: i) (simp_all add: option.map_comp comp_def)

lemma rows_from_nth:
  "k < Suc (max_row ws) - r \<Longrightarrow> rows_from ws r ! k = row_values ws (r + k)"
  by (simp add: rows_from_def del: upt_Suc)

lemma length_rows_from: "length (rows_from ws r) = Suc (max_row ws) - r"
  by (simp add: rows_from_def del: upt_Suc)

lemma find_section_title_first:
  "find_section_title ws pattern = Some t \<longleftrightarrow>
     1 \<le> t \<and> t \<le> max_row ws \<and> re_found pattern (line_text (row_values ws t)) \<and>
     (\<forall>r. 1 \<le> r \<and> r < t \<longrightarrow> \<not> re_found pattern (line_text (row_values ws r)))"
proof -
  let ?P = "\<lambda>r. re_found pattern (line_text r)"
  have "find_section_title ws pattern = Some t \<longleftrightarrow>
          (\<exists>k. leftmost ?P (rows_from ws 1) = Some k \<and> t = Suc k)"
    by (auto simp: find_section_title_def first_title_row_leftmost)
  also have "\<dots> \<longleftrightarrow> (\<exists>k. t = Suc k \<and> k < max_row ws \<and> ?P (row_values ws (Suc k)) \<and>
                (\<forall>j < k. \<not> ?P (row_values ws (Suc j))))"
    by (auto simp: leftmost_Some_iff length_rows_from rows_from_nth)
  also have "\<dots> \<longleftrightarrow> 1 \<le> t \<and> t \<le> max_row ws \<and> ?P (row_values ws t) \<and>
     (\<forall>r. 1 \<le> r \<and> r < t \<longrightarrow> \<not> ?P (row_values ws r))"
  proof (cases t)
    case 0
    then show ?thesis by simp
  next
    case (Suc k)
    have "(\<forall>j < k. \<not> ?P (row_values ws (Suc j))) \<longleftrightarrow> (\<forall>r. 1 \<le> r \<and> r < Suc k \<longrightarrow> \<not> ?P (row_values ws r))"
      by (auto simp: Suc_le_eq gr0_conv_Suc)
    with Suc show ?thesis by (auto simp: Suc_le_eq)
  qed
  finally show ?thesis .
qed

lemma find_section_title_None:
  "find_section_title ws pattern = None \<longleftrightarrow>
     (\<forall>r. 1 \<le> r \<and> r \<le> max_row ws \<longrightarrow> \<not> re_found pattern (line_text (row_values ws r)))"
proof -
  have "find_section_title ws pattern = None \<longleftrightarrow>
          (\<forall>k < max_row ws. \<not> re_found pattern (line_text (row_values ws (Suc k))))"
    by (simp add: find_section_title_def first_title_row_None list_all_length length_rows_from rows_from_nth)
  also have "\<dots> \<longleftrightarrow> (\<forall>r. 1 \<le> r \<and> r \<le> max_row ws \<longrightarrow> \<not> re_found pattern (line_text (row_values ws r)))"
    by (auto simp: Suc_le_eq gr0_conv_Suc)
  finally show ?thesis .
qed

section \<open>The cash scan\<close>

lemma cash_row_false_row:
  "\<not> list_ex truthy z \<Longrightarrow> cash_row col n l m z rs = Inr (Break rs)"
  by (simp add: cash_row_def)

lemma cash_row_not_break:
  "list_ex truthy z \<Longrightarrow> cash_row col n l m z rs \<noteq> Inr (Break rs')"
  unfolding cash_row_def
  by (auto elim!: bindE_InrE split: option.splits if_splits)

lemma cash_loop_stops:
  "\<not> list_ex truthy z \<Longrightarrow>
   cash_loop col n l m (pre @ z # post) rs = cash_loop col n l m pre rs"
proof (induction pre arbitrary: rs)
  case Nil
  then show ?case by (simp add: cash_row_false_row)
next
  case (Cons v pre)
  show ?case
  proof (cases "cash_row col n l m v rs")
    case (Inl e)
    then show ?thesis by simp
  next
    case (Inr c)
    with Cons show ?thesis by (cases c) simp_all
  qed
qed

lemma cash_loop_append:
  "list_all (list_ex truthy) pre \<Longrightarrow>
   cash_loop col n l m (pre @ post) rs =
     bindE (cash_loop col n l m pre rs) (cash_loop col n l m post)"
proof (induction pre arbitrary: rs)
  case Nil
  then show ?case by simp
next
  case (Cons v pre)
  show ?case
  proof (cases "cash_row col n l m v rs")
    case (Inl e)
    then show ?thesis by simp
  next
    case (Inr c)
    show ?thesis
    proof (cases c)
      case (Break s)
      with Inr Cons.prems cash_row_not_break [of v col n l m rs s] show ?thesis by simp
    next
      case (Continue s)
      with Inr Cons show ?thesis by simp
    qed
  qed
qed

lemma truthy_iff: "truthy c \<longleftrightarrow> c \<notin> {Absent, Text [], IntV 0, FloatV 0}"
  by (cases c) auto

lemma cash_record_ok_cash:
  "a \<noteq> 0 \<Longrightarrow> ev = ''Cash_In'' \<or> ev = ''Cash_Out'' \<Longrightarrow> cash_record_ok (cash_record ev d ccy a comment)"
  by (auto simp: cash_record_ok_def cash_record_def)

lemma cash_record_ok_coupon: "cash_record_ok (coupon_record n m d ccy amount comment)"
  by (simp add: cash_record_ok_def coupon_record_def Let_def)

lemma cash_classify_ok:
  "list_all cash_record_ok rs \<Longrightarrow>
   list_all cash_record_ok (cash_classify n m op d amount ccy comment rs)"
  by (auto simp: cash_classify_def cash_record_ok_cash cash_record_ok_coupon split: option.splits)

lemma cash_row_ok:
  assumes "list_all cash_record_ok rs" "cash_row col n l m v rs = Inr c"
  shows "list_all cash_record_ok (case c of Break s \<Rightarrow> s | Continue s \<Rightarrow> s)"
  using assms unfolding cash_row_def
  by (auto elim!: bindE_InrE split: option.splits if_splits simp: cash_classify_ok)

lemma cash_loop_ok:
  "list_all cash_record_ok rs \<Longrightarrow> cash_loop col n l m vs rs = Inr out \<Longrightarrow>
   list_all cash_record_ok out"
proof (induction vs arbitrary: rs)
  case Nil
  then show ?case by simp
next
  case (Cons v vs)
  show ?case
  proof (cases "cash_row col n l m v rs")
    case (Inl e)
    with Cons.prems show ?thesis by simp
  next
    case (Inr c)
    from cash_row_ok [OF Cons.prems(1) Inr] Inr Cons show ?thesis
      by (cases c) auto
  qed
qed

lemma parse_cash_ok:
  "parse_cash_to_target ws n l m = Inr out \<Longrightarrow> list_all cash_record_ok out"
  unfolding parse_cash_to_target_def
  by (auto elim!: bindE_InrE split: option.splits dest: cash_loop_ok [rotated])

lemma cash_classify_cases:
  "cash_classify n m op d amount ccy comment rs = rs \<or>
   cash_classify n m op d amount ccy comment rs = rs @ [coupon_record n m d ccy amount comment] \<or>
   (\<exists>a ev. amount = Some a \<and> a \<noteq> 0 \<and> (ev = ''Cash_In'' \<or> ev = ''Cash_Out'') \<and>
      cash_classify n m op d amount ccy comment rs = rs @ [cash_record ev d ccy a comment])"
  by (auto simp: cash_classify_def split: option.splits)

lemma cash_classify_coupon:
  "coupon_row op comment \<Longrightarrow>
   cash_classify n m op d amount ccy comment rs = rs @ [coupon_record n m d ccy amount comment]"
  by (auto simp: cash_classify_def coupon_row_def)



text \<open>
  C2. The end-to-end scenario: the sheet \<open>scenario_grid\<close> has the title of the
  trades section, a header row with all required columns, the header line of an
  issue ("Bond ABC", blank deal type), two purchases with amounts 1000 and 3000 and
  no commission of their own, and a subtotal row with 40 in the column of the
  trading system's commission. With \<open>alloc_commission\<close> set the result is exactly
  two \<open>Buy\<close> records, with fees 10 and 30.
\<close>

theorem scenario_fees:
  "parse_trades_to_target scenario_grid [] True True =
     Inr [buy_record ''2024-01-15'' 10 (Some 10), buy_record ''2024-01-16'' 30 (Some 30)]"
  by code_simp

text \<open>
  C3, as stated, fails at the end of the grid: the loop is left by its condition and
  \<open>flush_batch\<close> is not called. On \<open>open_grid\<close>, which ends after a purchase,
  the scan is left with the candidate still in the batch, a state that no flush
  returns.
\<close>

theorem open_grid_not_flushed:
  "\<exists>st. trades_scan open_grid [] True True = Inr st \<and> batch_items st = [(0, 1000)] \<and>
        (\<forall>st0. flush_batch True st0 \<noteq> Inr st)"
proof -
  have "trades_scan open_grid [] True True =
          Inr \<lparr>rows = [buy_record ''2024-01-15'' 10 None], batch_items = [(0, 1000)],
               batch_total_fee = 0, current_issue_text = Some (ascii ''Bond ABC''),
               current_issue_isin = None\<rparr>"
    by code_simp
  then show ?thesis by (auto dest: flush_batch_clears)
qed

text \<open>
  C3, amended. The scan runs through every row that is no title of another section
  (so it ends at the end of the grid when there is none), and stops at the first row
  that is one, with a flush of the batch; the rows below are not read. When the loop
  is left at the end of the grid no flush is run, but the accumulated fee is zero
  there, as at every head of the loop (a subtotal row adds its fee and flushes at
  once): a final flush would only clear the batch, and the records returned are those
  it would leave. No batch with candidates and a non-zero accumulated fee is
  discarded.
\<close>

theorem trades_scan_termination:
  "(list_all (\<lambda>v. \<not> is_section_end (line_text v)) pre \<longrightarrow>
      trades_loop idx n a l (pre @ post) st =
        bindE (trades_loop idx n a l pre st) (trades_loop idx n a l post)) \<and>
   (list_all (\<lambda>v. \<not> is_section_end (line_text v)) pre \<and> is_section_end (line_text t) \<longrightarrow>
      trades_loop idx n a l (pre @ t # post) st =
        bindE (trades_loop idx n a l pre st) (flush_batch a)) \<and>
   (trades_scan ws n a l = Inr st' \<longrightarrow>
      batch_total_fee st' = 0 \<and>
      flush_batch a st' = Inr (st'\<lparr>batch_items := [], batch_total_fee := 0\<rparr>) \<and>
      parse_trades_to_target ws n a l = Inr (rows st'))"
proof (intro conjI impI)
  assume "list_all (\<lambda>v. \<not> is_section_end (line_text v)) pre"
  then show "trades_loop idx n a l (pre @ post) st =
        bindE (trades_loop idx n a l pre st) (trades_loop idx n a l post)"
    by (rule trades_loop_append)
next
  assume h: "list_all (\<lambda>v. \<not> is_section_end (line_text v)) pre \<and> is_section_end (line_text t)"
  then have "trades_loop idx n a l (pre @ t # post) st =
        bindE (trades_loop idx n a l pre st) (trades_loop idx n a l (t # post))"
    by (simp add: trades_loop_append)
  also from h have "trades_loop idx n a l (t # post) = flush_batch a"
    by (intro ext trades_loop_at_section_end) simp
  finally show "trades_loop idx n a l (pre @ t # post) st =
        bindE (trades_loop idx n a l pre st) (flush_batch a)" .
next
  assume s: "trades_scan ws n a l = Inr st'"
  then have "scan_inv a st'" by (rule trades_scan_inv)
  then show "batch_total_fee st' = 0" by (simp add: scan_inv_def)
  then show "flush_batch a st' = Inr (st'\<lparr>batch_items := [], batch_total_fee := 0\<rparr>)"
    by (rule flush_batch_zero_fee)
  from s show "parse_trades_to_target ws n a l = Inr (rows st')"
    by (simp add: parse_trades_to_target_def)
qed

theorem trades_scan_termination_witness:
  "trades_loop trades_idx [] True True
     ([issue_cells, buy_cells ''15.01.2024'' 10 1000] @ cash_title_cells #
      [buy_cells ''16.01.2024'' 30 3000]) init_state =
     bindE (trades_loop trades_idx [] True True
              [issue_cells, buy_cells ''15.01.2024'' 10 1000] init_state) (flush_batch True) \<and>
   map FeeTax (rows (projr (trades_loop trades_idx [] True True
     [issue_cells, buy_cells ''15.01.2024'' 10 1000, cash_title_cells,
      buy_cells ''16.01.2024'' 30 3000] init_state))) = [None] \<and>
   (\<exists>st'. trades_scan open_grid [] True True = Inr st' \<and> batch_total_fee st' = 0 \<and>
      flush_batch True st' = Inr (st'\<lparr>batch_items := [], batch_total_fee := 0\<rparr>) \<and>
      parse_trades_to_target open_grid [] True True = Inr (rows st'))"
proof -
  have pre: "list_all (\<lambda>v. \<not> is_section_end (line_text v))
               [issue_cells, buy_cells ''15.01.2024'' 10 1000]"
    by code_simp
  have t: "is_section_end (line_text cash_title_cells)"
    by code_simp
  have run: "trades_scan open_grid [] True True =
          Inr \<lparr>rows = [buy_record ''2024-01-15'' 10 None], batch_items = [(0, 1000)],
               batch_total_fee = 0, current_issue_text = Some (ascii ''Bond ABC''),
               current_issue_isin = None\<rparr>"
    by code_simp
  have ev: "map FeeTax (rows (projr (trades_loop trades_idx [] True True
     [issue_cells, buy_cells ''15.01.2024'' 10 1000, cash_title_cells,
      buy_cells ''16.01.2024'' 30 3000] init_state))) = [None]"
    by code_simp
  note inst = trades_scan_termination [of "[issue_cells, buy_cells ''15.01.2024'' 10 1000]"
      trades_idx "[]" True True "[buy_cells ''16.01.2024'' 30 3000]" init_state
      cash_title_cells open_grid]
  from inst pre t have 1: "trades_loop trades_idx [] True True
     ([issue_cells, buy_cells ''15.01.2024'' 10 1000] @ cash_title_cells #
      [buy_cells ''16.01.2024'' 30 3000]) init_state =
     bindE (trades_loop trades_idx [] True True
              [issue_cells, buy_cells ''15.01.2024'' 10 1000] init_state) (flush_batch True)"
    by blast
  from inst run have 2: "\<exists>st'. trades_scan open_grid [] True True = Inr st' \<and> batch_total_fee st' = 0 \<and>
      flush_batch True st' = Inr (st'\<lparr>batch_items := [], batch_total_fee := 0\<rparr>) \<and>
      parse_trades_to_target open_grid [] True True = Inr (rows st')"
    by blast
  from 1 ev 2 show ?thesis by blast
qed

text \<open>
  C4. When no row of the sheet matches the title of the trades section,
  \<open>parse_trades_to_target\<close> raises (the \<open>RuntimeError\<close> "section not found") and
  returns no records; when the title is found in row \<open>title_row\<close> and no row of
  the lookahead window below it, rows \<open>title_row + 1\<close> to
  \<open>min(max_row, title_row + 25)\<close>, resolves all required fields, it raises the
  \<open>RuntimeError\<close> "table header not found".
\<close>

theorem trades_structural_errors:
  "((\<forall>r. 1 \<le> r \<and> r \<le> max_row ws \<longrightarrow>
        \<not> re_found SECTION_TRADES_RE (line_text (row_values ws r))) \<longrightarrow>
      parse_trades_to_target ws name_to_isin alloc_commission locale_comma = Inl SectionNotFound) \<and>
   (find_section_title ws SECTION_TRADES_RE = Some title_row \<and>
    (\<forall>i. title_row < i \<and> i \<le> min (max_row ws) (title_row + LOOKAHEAD) \<longrightarrow>
        \<not> is_header ws HEADER_KEYS_TRADES TRADES_NEEDED i) \<longrightarrow>
      parse_trades_to_target ws name_to_isin alloc_commission locale_comma = Inl HeaderNotFound)"
proof (intro conjI impI)
  assume "\<forall>r. 1 \<le> r \<and> r \<le> max_row ws \<longrightarrow>
        \<not> re_found SECTION_TRADES_RE (line_text (row_values ws r))"
  then have "find_section_title ws SECTION_TRADES_RE = None"
    by (simp only: find_section_title_None)
  then show "parse_trades_to_target ws name_to_isin alloc_commission locale_comma = Inl SectionNotFound"
    by (simp add: parse_trades_to_target_def trades_scan_def)
next
  assume h: "find_section_title ws SECTION_TRADES_RE = Some title_row \<and>
    (\<forall>i. title_row < i \<and> i \<le> min (max_row ws) (title_row + LOOKAHEAD) \<longrightarrow>
        \<not> is_header ws HEADER_KEYS_TRADES TRADES_NEEDED i)"
  then have "list_all (\<lambda>k. \<not> is_header ws HEADER_KEYS_TRADES TRADES_NEEDED k)
               [Suc title_row ..< Suc (min (max_row ws) (title_row + LOOKAHEAD))]"
    unfolding list_all_iff by (auto simp: Suc_le_eq less_Suc_eq_le)
  then have "find_header_below ws title_row HEADER_KEYS_TRADES TRADES_NEEDED LOOKAHEAD = Inl HeaderNotFound"
    by (simp add: find_header_below_def Let_def header_scan_Inl)
  with h show "parse_trades_to_target ws name_to_isin alloc_commission locale_comma = Inl HeaderNotFound"
    by (simp add: parse_trades_to_target_def trades_scan_def)
qed

theorem trades_structural_errors_witness:
  "parse_trades_to_target [issue_cells, header_cells] [] True True = Inl SectionNotFound \<and>
   parse_trades_to_target [title_cells, issue_cells] [] True True = Inl HeaderNotFound"
proof -
  have a: "list_all (\<lambda>r. \<not> re_found SECTION_TRADES_RE (line_text (row_values [issue_cells, header_cells] r))) [1, 2]"
    "max_row [issue_cells, header_cells] = 2"
    by code_simp+
  have a': "\<forall>r. 1 \<le> r \<and> r \<le> max_row [issue_cells, header_cells] \<longrightarrow>
        \<not> re_found SECTION_TRADES_RE (line_text (row_values [issue_cells, header_cells] r))"
  proof (intro allI impI)
    fix r :: nat assume "1 \<le> r \<and> r \<le> max_row [issue_cells, header_cells]"
    with a(2) have "r = 1 \<or> r = 2" by auto
    with a(1) show "\<not> re_found SECTION_TRADES_RE (line_text (row_values [issue_cells, header_cells] r))"
      by auto
  qed
  have b: "find_section_title [title_cells, issue_cells] SECTION_TRADES_RE = Some 1"
    "\<not> is_header [title_cells, issue_cells] HEADER_KEYS_TRADES TRADES_NEEDED 2"
    "min (max_row [title_cells, issue_cells]) (1 + LOOKAHEAD) = 2"
    by code_simp+
  have b': "\<forall>i. 1 < i \<and> i \<le> min (max_row [title_cells, issue_cells]) (1 + LOOKAHEAD) \<longrightarrow>
        \<not> is_header [title_cells, issue_cells] HEADER_KEYS_TRADES TRADES_NEEDED i"
  proof (intro allI impI)
    fix i :: nat assume "1 < i \<and> i \<le> min (max_row [title_cells, issue_cells]) (1 + LOOKAHEAD)"
    with b(3) have "i = 2" by auto
    with b(2) show "\<not> is_header [title_cells, issue_cells] HEADER_KEYS_TRADES TRADES_NEEDED i" by simp
  qed
  from trades_structural_errors [where ws = "[issue_cells, header_cells]" and name_to_isin = "[]"
      and alloc_commission = True and locale_comma = True] a'
  have 1: "parse_trades_to_target [issue_cells, header_cells] [] True True = Inl SectionNotFound"
    by blast
  from trades_structural_errors [where ws = "[title_cells, issue_cells]" and title_row = 1
      and name_to_isin = "[]" and alloc_commission = True and locale_comma = True] b(1) b'
  have 2: "parse_trades_to_target [title_cells, issue_cells] [] True True = Inl HeaderNotFound"
    by blast
  from 1 2 show ?thesis by simp
qed

text \<open>
  C5. The second decimal example of the specification,
  \<open>parse_decimal("1,234.56", locale_comma=False) = 1234.56\<close>, which the docstring of
  the function also promises ("strings of the form 1 234,56 (locale_comma=True) or
  1,234.56"), does not hold of the code: with the flag off the comma stays in the
  string, \<open>float\<close> rejects it and the function returns \<open>None\<close>. (With the flag on
  the comma becomes a second point, and the result is \<open>None\<close> as well.) The other
  examples of the claim hold, see \<open>parse_decimal_locale_comma_example\<close>,
  \<open>parse_decimal_dash\<close> and \<open>parse_decimal_none\<close>.
\<close>

theorem parse_decimal_thousands_comma_rejected:
  "parse_decimal (Text (ascii ''1,234.56'')) False = None \<and>
   parse_decimal (Text (ascii ''1,234.56'')) True = None"
  by code_simp

text \<open>
  C6. \<open>find_isin_by_name\<close> returns the ISIN of the leftmost entry of the index
  whose key is not empty and occurs in \<open>norm_key(text)\<close> as a contiguous block,
  and \<open>None\<close> when there is no such entry (an empty text has none). With the one
  entry of \<open>sber_index\<close> the text \<open>sber_text\<close> resolves to that entry's ISIN.
\<close>

theorem find_isin_by_name_first_match:
  "find_isin_by_name text idx =
     map_option (\<lambda>i. snd (idx ! i))
       (leftmost (\<lambda>e. fst e \<noteq> [] \<and> contains (norm_key text) (fst e)) idx) \<and>
   (find_isin_by_name text idx = Some isin \<longleftrightarrow>
      (\<exists>i < length idx. snd (idx ! i) = isin \<and>
         fst (idx ! i) \<noteq> [] \<and> (\<exists>a b. norm_key text = a @ fst (idx ! i) @ b) \<and>
         (\<forall>k < i. \<not> (fst (idx ! k) \<noteq> [] \<and> (\<exists>a b. norm_key text = a @ fst (idx ! k) @ b))))) \<and>
   (find_isin_by_name text idx = None \<longleftrightarrow>
      list_all (\<lambda>e. \<not> (fst e \<noteq> [] \<and> (\<exists>a b. norm_key text = a @ fst e @ b))) idx) \<and>
   find_isin_by_name sber_text sber_index = Some (ascii ''RU0009029540'')"
proof -
  let ?P = "\<lambda>e. fst e \<noteq> [] \<and> contains (norm_key text) (fst e)"
  have eq: "find_isin_by_name text idx = map_option (\<lambda>i. snd (idx ! i)) (leftmost ?P idx)"
  proof (cases "text = []")
    case True
    have "leftmost (\<lambda>e. fst e \<noteq> [] \<and> contains [] (fst e)) idx = None"
      by (simp add: leftmost_None_iff list_all_iff)
    with True show ?thesis by (simp add: find_isin_by_name_def norm_key_empty)
  next
    case False
    then show ?thesis by (simp add: find_isin_by_name_def first_name_in_leftmost)
  qed
  have some: "find_isin_by_name text idx = Some isin \<longleftrightarrow>
      (\<exists>i < length idx. snd (idx ! i) = isin \<and>
         fst (idx ! i) \<noteq> [] \<and> (\<exists>a b. norm_key text = a @ fst (idx ! i) @ b) \<and>
         (\<forall>k < i. \<not> (fst (idx ! k) \<noteq> [] \<and> (\<exists>a b. norm_key text = a @ fst (idx ! k) @ b))))"
    unfolding eq map_option_eq_Some leftmost_Some_iff contains_iff by blast
  have none: "find_isin_by_name text idx = None \<longleftrightarrow>
      list_all (\<lambda>e. \<not> (fst e \<noteq> [] \<and> (\<exists>a b. norm_key text = a @ fst e @ b))) idx"
    unfolding eq by (simp add: leftmost_None_iff contains_iff)
  have ex: "find_isin_by_name sber_text sber_index = Some (ascii ''RU0009029540'')"
    by code_simp
  from eq some none ex show ?thesis by blast
qed

theorem find_isin_by_name_first_match_witness:
  "find_isin_by_name sber_text (sber_index @ [(ascii ''sber'', ascii ''RU0000000000'')])
     = Some (ascii ''RU0009029540'') \<and>
   find_isin_by_name (ascii ''Bond ABC'') sber_index = None"
proof -
  let ?idx = "sber_index @ [(ascii ''sber'', ascii ''RU0000000000'')]"
  have k: "norm_key sber_text = [] @ fst (?idx ! 0) @ [1072, 1086]" "fst (?idx ! 0) \<noteq> []"
    "snd (?idx ! 0) = ascii ''RU0009029540''" "0 < length ?idx"
    by code_simp+
  have 1: "find_isin_by_name sber_text ?idx = Some (ascii ''RU0009029540'')"
    using find_isin_by_name_first_match [of sber_text ?idx "ascii ''RU0009029540''"] k
    by blast
  have n: "list_all (\<lambda>e. \<not> (fst e \<noteq> [] \<and> contains (norm_key (ascii ''Bond ABC'')) (fst e))) sber_index"
    by code_simp
  then have "list_all (\<lambda>e. \<not> (fst e \<noteq> [] \<and> (\<exists>a b. norm_key (ascii ''Bond ABC'') = a @ fst e @ b))) sber_index"
    by (simp add: contains_iff)
  with find_isin_by_name_first_match [of "ascii ''Bond ABC''" sber_index]
  have 2: "find_isin_by_name (ascii ''Bond ABC'') sber_index = None" by blast
  from 1 2 show ?thesis by simp
qed

text \<open>
  C7. \<open>match_header_indices\<close> maps a field to the index of the leftmost cell
  whose text contains one of the field's synonyms, and has no entry for a field that
  no cell contains; cells further to the right never change a recorded field.
  \<open>find_header_below\<close> returns the first row of the lookahead window whose
  resolved fields include every required one, with the indices of that row, and
  raises its error exactly when the window has no such row.
\<close>

theorem header_matching:
  "(map_of (match_header_indices cells mapping) key = Some j \<longleftrightarrow>
      j < length cells \<and> field_in_cell mapping key (cells ! j) \<and>
      (\<forall>i < j. \<not> field_in_cell mapping key (cells ! i))) \<and>
   (map_of (match_header_indices cells mapping) key = None \<longleftrightarrow>
      list_all (\<lambda>c. \<not> field_in_cell mapping key c) cells) \<and>
   (map_of (match_header_indices cells mapping) key = Some j \<longrightarrow>
      map_of (match_header_indices (cells @ later) mapping) key = Some j) \<and>
   (find_header_below ws start_row mapping needed lookahead = Inr (i, idx) \<longleftrightarrow>
      start_row < i \<and> i \<le> min (max_row ws) (start_row + lookahead) \<and>
      is_header ws mapping needed i \<and>
      (\<forall>k. start_row < k \<and> k < i \<longrightarrow> \<not> is_header ws mapping needed k) \<and>
      idx = match_header_indices (row_values ws i) mapping) \<and>
   (find_header_below ws start_row mapping needed lookahead = Inl e \<longleftrightarrow>
      e = HeaderNotFound \<and>
      (\<forall>k. start_row < k \<and> k \<le> min (max_row ws) (start_row + lookahead) \<longrightarrow>
         \<not> is_header ws mapping needed k))"
proof (intro conjI)
  show "map_of (match_header_indices cells mapping) key = Some j \<longleftrightarrow>
      j < length cells \<and> field_in_cell mapping key (cells ! j) \<and>
      (\<forall>i < j. \<not> field_in_cell mapping key (cells ! i))"
    by (simp only: match_header_indices_leftmost leftmost_Some_iff)
  show "map_of (match_header_indices cells mapping) key = None \<longleftrightarrow>
      list_all (\<lambda>c. \<not> field_in_cell mapping key c) cells"
    by (simp only: match_header_indices_leftmost leftmost_None_iff)
  show "map_of (match_header_indices cells mapping) key = Some j \<longrightarrow>
      map_of (match_header_indices (cells @ later) mapping) key = Some j"
    by (simp add: match_header_indices_def mh_cells_append mh_cells_keeps)
  show "find_header_below ws start_row mapping needed lookahead = Inr (i, idx) \<longleftrightarrow>
      start_row < i \<and> i \<le> min (max_row ws) (start_row + lookahead) \<and>
      is_header ws mapping needed i \<and>
      (\<forall>k. start_row < k \<and> k < i \<longrightarrow> \<not> is_header ws mapping needed k) \<and>
      idx = match_header_indices (row_values ws i) mapping"
    unfolding find_header_below_def Let_def header_scan_upt
    by (simp only: Suc_le_eq less_Suc_eq_le)
  show "find_header_below ws start_row mapping needed lookahead = Inl e \<longleftrightarrow>
      e = HeaderNotFound \<and>
      (\<forall>k. start_row < k \<and> k \<le> min (max_row ws) (start_row + lookahead) \<longrightarrow>
         \<not> is_header ws mapping needed k)"
    unfolding find_header_below_def Let_def header_scan_Inl list_all_iff
    by (auto simp: Suc_le_eq less_Suc_eq_le)
qed

theorem header_matching_witness:
  "map_of (match_header_indices header_cells HEADER_KEYS_TRADES) ''amount'' = Some 4 \<and>
   map_of (match_header_indices (header_cells @ header_cells) HEADER_KEYS_TRADES) ''amount'' = Some 4 \<and>
   find_header_below scenario_grid 1 HEADER_KEYS_TRADES TRADES_NEEDED LOOKAHEAD = Inr (2, trades_idx) \<and>
   find_header_below open_grid 2 HEADER_KEYS_TRADES TRADES_NEEDED LOOKAHEAD = Inl HeaderNotFound"
proof -
  have a: "4 < length header_cells" "field_in_cell HEADER_KEYS_TRADES ''amount'' (header_cells ! 4)"
    by code_simp+
  have b: "list_all (\<lambda>c. \<not> field_in_cell HEADER_KEYS_TRADES ''amount'' c) (take 4 header_cells)"
    by code_simp
  have b': "\<forall>i < 4. \<not> field_in_cell HEADER_KEYS_TRADES ''amount'' (header_cells ! i)"
  proof (intro allI impI)
    fix i :: nat assume "i < 4"
    with a(1) have "take 4 header_cells ! i = header_cells ! i" "i < length (take 4 header_cells)"
      by simp_all
    with b show "\<not> field_in_cell HEADER_KEYS_TRADES ''amount'' (header_cells ! i)"
      unfolding list_all_length by metis
  qed
  note m = header_matching [where cells = header_cells and mapping = HEADER_KEYS_TRADES
      and key = "''amount''" and j = 4 and later = header_cells]
  from m a b' have 1: "map_of (match_header_indices header_cells HEADER_KEYS_TRADES) ''amount'' = Some 4"
    by blast
  with m have 2: "map_of (match_header_indices (header_cells @ header_cells) HEADER_KEYS_TRADES) ''amount'' = Some 4"
    by blast
  have c: "(1::nat) < 2" "2 \<le> min (max_row scenario_grid) (1 + LOOKAHEAD)"
    "is_header scenario_grid HEADER_KEYS_TRADES TRADES_NEEDED 2"
    "trades_idx = match_header_indices (row_values scenario_grid 2) HEADER_KEYS_TRADES"
    by code_simp+
  have c': "\<forall>k. 1 < k \<and> k < 2 \<longrightarrow> \<not> is_header scenario_grid HEADER_KEYS_TRADES TRADES_NEEDED k"
    by auto
  from header_matching [where ws = scenario_grid and start_row = 1 and mapping = HEADER_KEYS_TRADES
      and needed = TRADES_NEEDED and lookahead = LOOKAHEAD and i = 2 and idx = trades_idx] c c'
  have 3: "find_header_below scenario_grid 1 HEADER_KEYS_TRADES TRADES_NEEDED LOOKAHEAD = Inr (2, trades_idx)"
    by blast
  have d: "list_all (\<lambda>k. \<not> is_header open_grid HEADER_KEYS_TRADES TRADES_NEEDED k) [3, 4]"
    "min (max_row open_grid) (2 + LOOKAHEAD) = 4"
    by code_simp+
  have d': "\<forall>k. 2 < k \<and> k \<le> min (max_row open_grid) (2 + LOOKAHEAD) \<longrightarrow>
              \<not> is_header open_grid HEADER_KEYS_TRADES TRADES_NEEDED k"
  proof (intro allI impI)
    fix k :: nat assume "2 < k \<and> k \<le> min (max_row open_grid) (2 + LOOKAHEAD)"
    with d(2) have "k = 3 \<or> k = 4" by auto
    with d(1) show "\<not> is_header open_grid HEADER_KEYS_TRADES TRADES_NEEDED k" by auto
  qed
  from header_matching [where ws = open_grid and start_row = 2 and mapping = HEADER_KEYS_TRADES
      and needed = TRADES_NEEDED and lookahead = LOOKAHEAD and e = HeaderNotFound] d'
  have 4: "find_header_below open_grid 2 HEADER_KEYS_TRADES TRADES_NEEDED LOOKAHEAD = Inl HeaderNotFound"
    by blast
  from 1 2 3 4 show ?thesis by blast
qed

text \<open>
  C8. \<open>flush_batch\<close> never raises \<open>ZeroDivisionError\<close>. When the amounts of the
  candidates sum to zero and the accumulated fee is not zero, the divisor is 1 and
  the flush succeeds; each candidate's share is \<open>F * (a / 1)\<close> with \<open>a = 0\<close>
  (the amounts are absolute values), so its fee becomes \<open>(old FeeTax or 0) + 0\<close>.
\<close>

theorem flush_batch_zero_total:
  "flush_batch alloc_commission st \<noteq> Inl ZeroDivisionError \<and>
   (alloc_commission \<and> batch_total_fee st \<noteq> 0 \<and> batch_items st \<noteq> [] \<and>
    sum_list (map snd (batch_items st)) = 0 \<and>
    distinct (map fst (batch_items st)) \<and>
    list_all (\<lambda>p. fst p < length (rows st) \<and> 0 \<le> snd p) (batch_items st) \<longrightarrow>
      batch_total (batch_items st) = 1 \<and>
      (\<exists>st'. flush_batch alloc_commission st = Inr st' \<and>
         batch_items st' = [] \<and> batch_total_fee st' = 0 \<and>
         length (rows st') = length (rows st) \<and>
         list_all (\<lambda>(i, a). a = 0 \<and> rows st' ! i =
             (rows st ! i)\<lparr>FeeTax := Some (or_zero (FeeTax (rows st ! i)) +
                 batch_total_fee st * (a / 1))\<rparr>) (batch_items st)))"
proof (intro conjI impI)
  show "flush_batch alloc_commission st \<noteq> Inl ZeroDivisionError"
    by (rule flush_batch_no_zero_division)
next
  assume h: "alloc_commission \<and> batch_total_fee st \<noteq> 0 \<and> batch_items st \<noteq> [] \<and>
    sum_list (map snd (batch_items st)) = 0 \<and>
    distinct (map fst (batch_items st)) \<and>
    list_all (\<lambda>p. fst p < length (rows st) \<and> 0 \<le> snd p) (batch_items st)"
  let ?items = "batch_items st" and ?F = "batch_total_fee st"
  from h show T: "batch_total ?items = 1" by (simp add: batch_total_def)
  from h have dist: "distinct (map fst ?items)" and rng: "list_all (\<lambda>p. fst p < length (rows st)) ?items"
    and nn: "\<forall>p \<in> set ?items. 0 \<le> snd p"
    by (auto simp: list_all_iff)
  from nn have "sum_list (map snd ?items) = 0 \<longleftrightarrow> (\<forall>x \<in> set (map snd ?items). x = 0)"
    by (intro sum_list_nonneg_eq_0_iff) auto
  with h have zero: "\<forall>p \<in> set ?items. snd p = 0"
    by simp
  have one: "(1::rat) \<noteq> 0" by simp
  from allocate_result [OF one dist rng, of ?F] obtain rs' where
    rs': "allocate ?F 1 ?items (rows st) = Inr rs'" "length rs' = length (rows st)"
      "\<forall>i < length (rows st). rs' ! i =
         (case map_of ?items i of None \<Rightarrow> rows st ! i
          | Some a \<Rightarrow> add_fee (?F * (a / 1)) (rows st ! i))"
    by blast
  let ?st' = "st\<lparr>rows := rs', batch_items := [], batch_total_fee := 0\<rparr>"
  have fl: "flush_batch alloc_commission st = Inr ?st'"
    using h rs'(1) T by (simp add: flush_batch_def)
  have cand: "rs' ! i = add_fee (?F * (a / 1)) (rows st ! i)" if "(i, a) \<in> set ?items" for i a
  proof -
    from that dist have "map_of ?items i = Some a" by simp
    moreover from that rng have "i < length (rows st)" by (auto simp: list_all_iff)
    ultimately show ?thesis using rs'(3) by simp
  qed
  have "list_all (\<lambda>(i, a). a = 0 \<and> rs' ! i =
             (rows st ! i)\<lparr>FeeTax := Some (or_zero (FeeTax (rows st ! i)) + ?F * (a / 1))\<rparr>) ?items"
    unfolding list_all_iff
  proof (intro ballI)
    fix p assume p: "p \<in> set ?items"
    obtain i a where ia: "p = (i, a)" by (cases p)
    from p ia zero have "a = 0" by auto
    moreover from cand p ia have "rs' ! i = add_fee (?F * (a / 1)) (rows st ! i)" by simp
    ultimately show "case p of (i, a) \<Rightarrow> a = 0 \<and> rs' ! i =
             (rows st ! i)\<lparr>FeeTax := Some (or_zero (FeeTax (rows st ! i)) + ?F * (a / 1))\<rparr>"
      by (simp add: ia add_fee_def)
  qed
  with fl rs'(2) show "\<exists>st'. flush_batch alloc_commission st = Inr st' \<and>
         batch_items st' = [] \<and> batch_total_fee st' = 0 \<and>
         length (rows st') = length (rows st) \<and>
         list_all (\<lambda>(i, a). a = 0 \<and> rows st' ! i =
             (rows st ! i)\<lparr>FeeTax := Some (or_zero (FeeTax (rows st ! i)) +
                 batch_total_fee st * (a / 1))\<rparr>) (batch_items st)"
    by simp
qed

theorem flush_batch_zero_total_witness:
  "flush_batch True (batch_state 0 0 40) =
     Inr \<lparr>rows = [buy_record ''2024-01-15'' 10 (Some 0), buy_record ''2024-01-16'' 30 (Some 2)],
          batch_items = [], batch_total_fee = 0,
          current_issue_text = None, current_issue_isin = None\<rparr> \<and>
   batch_total (batch_items (batch_state 0 0 40)) = 1"
proof -
  have h: "True \<and> batch_total_fee (batch_state 0 0 40) \<noteq> 0 \<and> batch_items (batch_state 0 0 40) \<noteq> [] \<and>
    sum_list (map snd (batch_items (batch_state 0 0 40))) = 0 \<and>
    distinct (map fst (batch_items (batch_state 0 0 40))) \<and>
    list_all (\<lambda>p. fst p < length (rows (batch_state 0 0 40)) \<and> 0 \<le> snd p) (batch_items (batch_state 0 0 40))"
    by (simp add: batch_state_def)
  have ev: "flush_batch True (batch_state 0 0 40) =
     Inr \<lparr>rows = [buy_record ''2024-01-15'' 10 (Some 0), buy_record ''2024-01-16'' 30 (Some 2)],
          batch_items = [], batch_total_fee = 0,
          current_issue_text = None, current_issue_isin = None\<rparr>"
    by code_simp
  from flush_batch_zero_total [of True "batch_state 0 0 40"] h
  have "batch_total (batch_items (batch_state 0 0 40)) = 1" by blast
  with ev show ?thesis by simp
qed

text \<open>
  C9. A row of the cash table none of whose cells is true (each is absent, the
  empty string or the number 0) ends the scan: the rows before it are classified as
  if the table ended there, and the rows below it are not read. Rows with a true
  cell never end it. So a row whose only content is a numeric zero, whose text is not
  blank, ends the table: in \<open>cash_grid\<close> the deposit and the coupon below such a row
  produce no record.
\<close>

theorem cash_scan_stops_at_false_row:
  "(\<not> list_ex truthy z \<longrightarrow>
      cash_loop col n l m (pre @ z # post) rs = cash_loop col n l m pre rs) \<and>
   (list_all (list_ex truthy) pre \<longrightarrow>
      cash_loop col n l m (pre @ post) rs =
        bindE (cash_loop col n l m pre rs) (cash_loop col n l m post)) \<and>
   (truthy c \<longleftrightarrow> c \<notin> {Absent, Text [], IntV 0, FloatV 0})"
  using cash_loop_stops [of z col n l m pre post rs] cash_loop_append [of pre col n l m post rs]
    truthy_iff [of c]
  by blast

theorem cash_scan_stops_at_false_row_witness:
  "cash_loop cash_idx [] True True
     ([deposit_cells ''10.01.2024'' 500] @ zero_cells #
      [deposit_cells ''11.01.2024'' 700, coupon_cells]) [] =
     Inr [deposit_record ''2024-01-10'' 500] \<and>
   line_text zero_cells \<noteq> line_text [Absent, Absent, Absent, Absent, Absent] \<and>
   parse_cash_to_target cash_grid [] True True = Inr [deposit_record ''2024-01-10'' 500]"
proof -
  have z: "\<not> list_ex truthy zero_cells"
    by code_simp
  have pre: "cash_loop cash_idx [] True True [deposit_cells ''10.01.2024'' 500] [] =
               Inr [deposit_record ''2024-01-10'' 500]"
    by code_simp
  have nonblank: "line_text zero_cells \<noteq> line_text [Absent, Absent, Absent, Absent, Absent]"
    by code_simp
  have sheet: "parse_cash_to_target cash_grid [] True True = Inr [deposit_record ''2024-01-10'' 500]"
    by code_simp
  from cash_scan_stops_at_false_row [where z = zero_cells and col = cash_idx and n = "[]"
      and l = True and m = True and pre = "[deposit_cells ''10.01.2024'' 500]"
      and post = "[deposit_cells ''11.01.2024'' 700, coupon_cells]" and rs = "[]"] z
  have "cash_loop cash_idx [] True True
     ([deposit_cells ''10.01.2024'' 500] @ zero_cells #
      [deposit_cells ''11.01.2024'' 700, coupon_cells]) [] =
     cash_loop cash_idx [] True True [deposit_cells ''10.01.2024'' 500] []"
    by blast
  with pre nonblank sheet show ?thesis by simp
qed

text \<open>
  C10. Every \<open>Cash_In\<close> or \<open>Cash_Out\<close> record that \<open>parse_cash_to_target\<close>
  returns has the absolute value of a non-zero amount as its quantity: the
  classification of a row adds such a record only when the parsed amount is present
  and not zero. A coupon row adds a \<open>Dividend\<close> record whatever the amount; when
  the amount is absent the record's quantity is absent, its price is 1 if
  \<open>map_coupon_as_price_one\<close> is set (and absent otherwise) and its fee is 0.
\<close>

theorem cash_records_emitted:
  "(parse_cash_to_target ws n l m = Inr out \<longrightarrow> list_all cash_record_ok out) \<and>
   (cash_classify n m op d amount ccy comment rs = rs \<or>
    cash_classify n m op d amount ccy comment rs = rs @ [coupon_record n m d ccy amount comment] \<or>
    (\<exists>a ev. amount = Some a \<and> a \<noteq> 0 \<and> (ev = ''Cash_In'' \<or> ev = ''Cash_Out'') \<and>
       cash_classify n m op d amount ccy comment rs = rs @ [cash_record ev d ccy a comment])) \<and>
   (coupon_row op comment \<longrightarrow>
      cash_classify n m op d amount ccy comment rs =
        rs @ [coupon_record n m d ccy amount comment] \<and>
      Event (coupon_record n m d ccy amount comment) = ''Dividend'' \<and>
      Quantity (coupon_record n m d ccy amount comment) = map_option abs amount \<and>
      Quantity (coupon_record n m d ccy None comment) = None \<and>
      Price (coupon_record n m d ccy amount comment) = (if m then Some 1 else None) \<and>
      FeeTax (coupon_record n m d ccy amount comment) = Some 0)"
  using parse_cash_ok [of ws n l m out] cash_classify_cases [of n m op d amount ccy comment rs]
    cash_classify_coupon [of op comment n m d amount ccy rs]
  by (auto simp: coupon_record_def Let_def split: option.splits)

theorem cash_records_emitted_witness:
  "parse_cash_to_target coupon_grid [] True True =
     Inr [coupon_record [] True (ascii ''2024-01-12'') (Some (ascii ''RUB'')) None
            (Some (ascii ''RU000A0JWM18''))] \<and>
   list_all cash_record_ok
     [coupon_record [] True (ascii ''2024-01-12'') (Some (ascii ''RUB'')) None
        (Some (ascii ''RU000A0JWM18''))] \<and>
   cash_classify [] True (lower (norm_text (coupon_cells ! 1))) (ascii ''2024-01-12'') None
     (Some (ascii ''RUB'')) (Some (ascii ''RU000A0JWM18'')) [] =
     [coupon_record [] True (ascii ''2024-01-12'') (Some (ascii ''RUB'')) None
        (Some (ascii ''RU000A0JWM18''))] \<and>
   Quantity (coupon_record [] True (ascii ''2024-01-12'') (Some (ascii ''RUB'')) None
        (Some (ascii ''RU000A0JWM18''))) = None \<and>
   Price (coupon_record [] True (ascii ''2024-01-12'') (Some (ascii ''RUB'')) None
        (Some (ascii ''RU000A0JWM18''))) = Some 1"
proof -
  let ?r = "coupon_record [] True (ascii ''2024-01-12'') (Some (ascii ''RUB'')) None
        (Some (ascii ''RU000A0JWM18''))"
  have sheet: "parse_cash_to_target coupon_grid [] True True = Inr [?r]"
    by code_simp
  have cr: "coupon_row (lower (norm_text (coupon_cells ! 1))) (Some (ascii ''RU000A0JWM18''))"
    by code_simp
  note inst = cash_records_emitted [where ws = coupon_grid and n = "[]" and l = True and m = True
      and out = "[?r]" and op = "lower (norm_text (coupon_cells ! 1))"
      and comment = "Some (ascii ''RU000A0JWM18'')" and d = "ascii ''2024-01-12''"
      and ccy = "Some (ascii ''RUB'')" and rs = "[]" and amount = None]
  from inst sheet have 1: "list_all cash_record_ok [?r]" by blast
  from inst cr have 2: "cash_classify [] True (lower (norm_text (coupon_cells ! 1))) (ascii ''2024-01-12'') None
     (Some (ascii ''RUB'')) (Some (ascii ''RU000A0JWM18'')) [] = [] @ [?r]"
    and 3: "Quantity ?r = None" and 4: "Price ?r = (if True then Some 1 else None)"
    by blast+
  from sheet 1 2 3 4 show ?thesis by simp
qed

end
